theory Spec2Isabelle
  imports Main
begin

section \<open>Results of Go functions\<close>

text \<open>
  A Go function that can panic returns an \<open>outcome\<close>; one that returns
  \<^verbatim>\<open>(T, error)\<close> returns \<open>goerror + T\<close>, inside an \<open>outcome\<close> if it can panic too.
\<close>

datatype 'a outcome = Panic string | Returns 'a

section \<open>The error model (package graphql, errors)\<close>

text \<open>
  \<^verbatim>\<open>ErrKind\<close> is a \<^verbatim>\<open>uint8\<close> enumeration; only its six named values are ever
  constructed, \<^verbatim>\<open>ErrKindOther\<close> being the zero value of a fresh \<^verbatim>\<open>Error\<close>.
\<close>

datatype ErrKind =
    ErrKindOther
  | ErrKindCoercion
  | ErrKindSyntax
  | ErrKindValidation
  | ErrKindExecution
  | ErrKindInternal

text \<open>\<^verbatim>\<open>ErrorLocation\<close>: two \<^verbatim>\<open>uint\<close> fields that are stored and copied, never computed with.\<close>

record ErrorLocation =
  Line :: nat
  Column :: nat

text \<open>A key of a \<^verbatim>\<open>ResponsePath\<close> is a field name (string) or a list index (int).\<close>

datatype PathKey = FieldName string | ListIndex int

type_synonym ResponsePath = "PathKey list"

text \<open>
  \<^verbatim>\<open>ErrorExtensions\<close> is \<^verbatim>\<open>map[string]interface{}\<close>. The code modelled here stores and
  copies the map as a whole and never looks inside, so its values are kept as
  their printed text.
\<close>

type_synonym ErrorExtensions = "(string \<times> string) list"

text \<open>
  A Go \<^verbatim>\<open>error\<close> value is either a \<^verbatim>\<open>*Error\<close> of this package (\<open>CoreError\<close>) or a value
  of some other type (\<open>OtherError\<close>), which has a message and may implement the
  interfaces \<^verbatim>\<open>ErrorWithLocations\<close>, \<^verbatim>\<open>ErrorWithPath\<close> and \<^verbatim>\<open>ErrorWithExtensions\<close>
  (\<open>Some\<close> of what the method returns when it does). \<^verbatim>\<open>*Error\<close> has fields, not
  methods, of those names and so implements none of the three. A nil pointer
  (\<^verbatim>\<open>Path\<close>) or nil map (\<^verbatim>\<open>Extensions\<close>) is \<open>None\<close>; a nil slice of locations is the
  empty list (the code only asks for its length).
\<close>

datatype Error =
  Error (Message: string)
        (Locations: "ErrorLocation list")
        (Path: "ResponsePath option")
        (Extensions: "ErrorExtensions option")
        (Err: "goerror option")
        (Op: string)
        (Kind: ErrKind)
and goerror =
    CoreError Error
  | OtherError (errorMessage: string)
               (withLocations: "ErrorLocation list option")
               (withPath: "ResponsePath option option")
               (withExtensions: "ErrorExtensions option option")

text \<open>
  One variadic argument of \<^verbatim>\<open>NewError\<close>, by the case of the type switch that takes
  it. \<open>ArgUnknown t v\<close> is a value of any other dynamic type (an untyped nil or a
  plain string, for instance); \<open>t\<close> is what \<^verbatim>\<open>%T\<close> prints for it and \<open>v\<close> what
  \<^verbatim>\<open>%v\<close> prints.
\<close>

datatype arg =
    ArgErrorLocation ErrorLocation
  | ArgErrorLocations "ErrorLocation list"
  | ArgResponsePath "ResponsePath option"
  | ArgErrorExtensions "ErrorExtensions option"
  | ArgError goerror
  | ArgOp string
  | ArgErrKind ErrKind
  | ArgUnknown string string

text \<open>The \<^verbatim>\<open>for _, arg := range args\<close> loop; \<open>Inl\<close> is the early return of the default case.\<close>

fun applyArgs :: "Error \<Rightarrow> arg list \<Rightarrow> goerror + Error" where
  "applyArgs e [] = Inr e"
| "applyArgs (Error m ls p x c opr k) (a # as) =
     (case a of
        ArgErrorLocation l \<Rightarrow> applyArgs (Error m [l] p x c opr k) as
      | ArgErrorLocations ls' \<Rightarrow> applyArgs (Error m ls' p x c opr k) as
      | ArgResponsePath p' \<Rightarrow> applyArgs (Error m ls p' x c opr k) as
      | ArgErrorExtensions x' \<Rightarrow> applyArgs (Error m ls p x' c opr k) as
      | ArgError err \<Rightarrow> applyArgs (Error m ls p x (Some err) opr k) as
      | ArgOp opr' \<Rightarrow> applyArgs (Error m ls p x c opr' k) as
      | ArgErrKind k' \<Rightarrow> applyArgs (Error m ls p x c opr k') as
      | ArgUnknown t v \<Rightarrow>
          Inl (OtherError (''unknown type '' @ t @ '', value '' @ v @ '' in error call'')
                 None None None))"

text \<open>The four propagation steps that follow the loop, for a non-nil \<^verbatim>\<open>prev\<close>.\<close>

definition propagateLocations :: "goerror \<Rightarrow> ErrorLocation list \<Rightarrow> ErrorLocation list" where
  "propagateLocations prev ls =
     (if length ls = 0 then
        (case prev of
           OtherError _ (Some ls') _ _ \<Rightarrow> ls'
         | OtherError _ None _ _ \<Rightarrow> ls
         | CoreError pe \<Rightarrow> if length (Locations pe) > 0 then Locations pe else ls)
      else ls)"

definition propagatePath :: "goerror \<Rightarrow> ResponsePath option \<Rightarrow> ResponsePath option" where
  "propagatePath prev p =
     (if p = None then
        (case prev of
           OtherError _ _ (Some p') _ \<Rightarrow> p'
         | OtherError _ _ None _ \<Rightarrow> p
         | CoreError pe \<Rightarrow> if Path pe \<noteq> None then Path pe else p)
      else p)"

definition propagateExtensions :: "goerror \<Rightarrow> ErrorExtensions option \<Rightarrow> ErrorExtensions option" where
  "propagateExtensions prev x =
     (if x = None then
        (case prev of
           OtherError _ _ _ (Some x') \<Rightarrow> x'
         | OtherError _ _ _ None \<Rightarrow> x
         | CoreError pe \<Rightarrow> Extensions pe)
      else x)"

definition propagateKind :: "goerror \<Rightarrow> ErrKind \<Rightarrow> ErrKind" where
  "propagateKind prev k =
     (if k = ErrKindOther then
        (case prev of CoreError pe \<Rightarrow> Kind pe | OtherError _ _ _ _ \<Rightarrow> k)
      else k)"

fun propagate :: "Error \<Rightarrow> Error" where
  "propagate (Error m ls p x None opr k) = Error m ls p x None opr k"
| "propagate (Error m ls p x (Some prev) opr k) =
     Error m (propagateLocations prev ls) (propagatePath prev p)
       (propagateExtensions prev x) (Some prev) opr (propagateKind prev k)"

definition NewError :: "string \<Rightarrow> arg list \<Rightarrow> goerror" where
  "NewError message args =
     (case applyArgs (Error message [] None None None [] ErrKindOther) args of
        Inl plain \<Rightarrow> plain
      | Inr e \<Rightarrow> CoreError (propagate e))"

text \<open>
  What an argument list says, read off the list alone: the last \<^verbatim>\<open>ErrKind\<close> argument
  (\<^verbatim>\<open>ErrKindOther\<close> when there is none), the last \<^verbatim>\<open>error\<close> argument, and the first
  argument of an unrecognized type.
\<close>

fun kindGiven :: "arg list \<Rightarrow> ErrKind \<Rightarrow> ErrKind" where
  "kindGiven [] k = k"
| "kindGiven (ArgErrKind k' # as) k = kindGiven as k'"
| "kindGiven (_ # as) k = kindGiven as k"

fun causeGiven :: "arg list \<Rightarrow> goerror option \<Rightarrow> goerror option" where
  "causeGiven [] c = c"
| "causeGiven (ArgError err # as) c = causeGiven as (Some err)"
| "causeGiven (_ # as) c = causeGiven as c"

fun isUnknown :: "arg \<Rightarrow> bool" where
  "isUnknown (ArgUnknown _ _) = True"
| "isUnknown _ = False"

fun firstUnknown :: "arg list \<Rightarrow> (string \<times> string) option" where
  "firstUnknown [] = None"
| "firstUnknown (ArgUnknown t v # as) = Some (t, v)"
| "firstUnknown (_ # as) = firstUnknown as"


section \<open>Values and types\<close>

text \<open>
  A Go \<^verbatim>\<open>interface{}\<close> value, as far as the code inspects it: the untyped nil, a
  bool, an int, a string, a slice or array, a \<^verbatim>\<open>map[string]interface{}\<close> (its entries
  in the order a \<^verbatim>\<open>range\<close> over it yields them), a non-nil pointer and a non-nil
  \<^verbatim>\<open>*graphql.Error\<close>.
\<close>

datatype gvalue =
    VNil
  | VBool bool
  | VInt int
  | VString string
  | VSlice "gvalue list"
  | VMap "(string \<times> gvalue) list"
  | VPtr gvalue
  | VError Error

text \<open>
  Modelled from the spec: the type declarations of package \<^verbatim>\<open>graphql\<close> are not among
  the sources. A \<^verbatim>\<open>graphql.Type\<close> is the tagged union the code switches on: the input
  coercer on \<^verbatim>\<open>*Scalar\<close>, \<^verbatim>\<open>*Enum\<close>, \<^verbatim>\<open>*List\<close>, \<^verbatim>\<open>*InputObject\<close> and \<^verbatim>\<open>*NonNull\<close>, the value
  completer on \<^verbatim>\<open>LeafType\<close> (scalar or enum), \<^verbatim>\<open>Object\<close>, \<^verbatim>\<open>AbstractType\<close> (union or
  interface) and \<^verbatim>\<open>WrappingType\<close> (list or non-null). An enum carries the names of its
  values; an input object carries its fields, each with its type and its default
  value if it has one (the list order is the order in which \<^verbatim>\<open>range\<close> visits the
  field map); an object or abstract type is identified by its name.
\<close>

datatype gtype =
    Scalar string
  | Enum string "string list"
  | InputObject string "(string \<times> gtype \<times> gvalue option) list"
  | Object string
  | Abstract string
  | ListType gtype
  | NonNull gtype

definition IsNonNullType :: "gtype \<Rightarrow> bool" where
  "IsNonNullType t = (case t of NonNull _ \<Rightarrow> True | _ \<Rightarrow> False)"

section \<open>Input coercion (package value, value\_coercion.go; package util, OrList)\<close>

text \<open>
  What the coercer calls and the sources do not contain: how a type and a value
  print (\<^verbatim>\<open>%v\<close>, \<^verbatim>\<open>String()\<close>, \<^verbatim>\<open>%T\<close>), the \<^verbatim>\<open>CoerceVariableValue\<close> method of a scalar or
  enum type, and \<^verbatim>\<open>util.SuggestionList\<close>. They are parameters of the model.
\<close>

record coercion_env =
  typeString :: "gtype \<Rightarrow> string"
  valueString :: "gvalue \<Rightarrow> string"
  valueTypeName :: "gvalue \<Rightarrow> string"
  coerceVariableValue :: "gtype \<Rightarrow> gvalue \<Rightarrow> goerror + gvalue"
  suggestionList :: "string \<Rightarrow> string list \<Rightarrow> string list"

text \<open>\<^verbatim>\<open>%d\<close> of an int.\<close>

function showNat :: "nat \<Rightarrow> string" where
  "showNat n =
     (if n < 10 then [''0123456789'' ! n]
      else showNat (n div 10) @ [''0123456789'' ! (n mod 10)])"
  by pat_completeness auto
termination
  by (relation "measure id") auto

definition showInt :: "int \<Rightarrow> string" where
  "showInt i = (if i < 0 then CHR ''-'' # showNat (nat (- i)) else showNat (nat i))"

text \<open>
  \<^verbatim>\<open>util.OrList\<close>: the loop from index 1, then the function. \<open>CHR 0x22\<close> is the double quote.
  When \<^verbatim>\<open>maxLength\<close> is 0 and there are items, the slice is cut to length 0 and
  \<^verbatim>\<open>items[0]\<close> panics.
\<close>

fun OrList_rest :: "string list \<Rightarrow> nat \<Rightarrow> nat \<Rightarrow> bool \<Rightarrow> string" where
  "OrList_rest [] i numItems quoted = []"
| "OrList_rest (item # items) i numItems quoted =
     (if numItems > 2 then '', '' else '' '')
     @ (if i = numItems - 1 then ''or '' else [])
     @ (if \<not> quoted then item else CHR 0x22 # item @ [CHR 0x22])
     @ OrList_rest items (i + 1) numItems quoted"

definition OrList :: "string list \<Rightarrow> nat \<Rightarrow> bool \<Rightarrow> string outcome" where
  "OrList items maxLength quoted =
     (if length items \<le> 0 then Returns []
      else
        let items' = (if length items > maxLength then take maxLength items else items);
            numItems = (if length items > maxLength then maxLength else length items)
        in case items' of
             [] \<Rightarrow> Panic ''index out of range [0] with length 0''
           | first # others \<Rightarrow>
               Returns ((if \<not> quoted then first else CHR 0x22 # first @ [CHR 0x22])
                        @ OrList_rest others 1 numItems quoted))"

text \<open>
  A \<^verbatim>\<open>*valuePath\<close> is a linked list from the last key back to the first: the head of
  the list is the node's \<^verbatim>\<open>key\<close>, its tail is \<^verbatim>\<open>prev\<close>, and \<open>[]\<close> is the nil pointer. The
  coercer overwrites the key of the one node it allocates per list or object and
  renders the path before the next write, so each iteration sees its own key.
\<close>

type_synonym valuePath = "PathKey list"

fun valuePath_walk :: "valuePath \<Rightarrow> string \<Rightarrow> string" where
  "valuePath_walk [] s = s"
| "valuePath_walk (FieldName key # prev) s = valuePath_walk prev (''.'' @ key @ s)"
| "valuePath_walk (ListIndex key # prev) s = valuePath_walk prev (''['' @ showInt key @ '']'' @ s)"

definition valuePath_String :: "valuePath \<Rightarrow> string" where
  "valuePath_String path =
     (let s = valuePath_walk path [] in if length s > 0 then ''value'' @ s else s)"

text \<open>
  The type assertion \<^verbatim>\<open>.(*graphql.Error)\<close> on what \<^verbatim>\<open>NewError\<close> returns. Where the
  coercer uses it every argument is of a recognized type, so the value is a
  \<^verbatim>\<open>*Error\<close> (lemma \<open>newCoercionError_is_NewError\<close> below) and the second case, in
  which Go panics, is never taken there.
\<close>

definition assertError :: "goerror \<Rightarrow> Error" where
  "assertError err =
     (case err of
        CoreError e \<Rightarrow> e
      | OtherError m _ _ _ \<Rightarrow> Error m [] None None None [] ErrKindOther)"

text \<open>The blame node is used for its location only: \<open>None\<close> is a nil node.\<close>

definition newCoercionError ::
  "string \<Rightarrow> ErrorLocation option \<Rightarrow> valuePath \<Rightarrow> string \<Rightarrow> goerror option \<Rightarrow> Error" where
  "newCoercionError message blameNode path subMessage originalError =
     (let text = message
            @ (if path \<noteq> [] then '' at '' @ valuePath_String path else [])
            @ (if length subMessage > 0 then ''; '' @ subMessage else ''.'');
          locations = (case blameNode of None \<Rightarrow> [] | Some l \<Rightarrow> [l])
      in case originalError of
           None \<Rightarrow> assertError (NewError text [ArgErrorLocations locations])
         | Some err \<Rightarrow> assertError (NewError text [ArgErrorLocations locations, ArgError err]))"

text \<open>
  The text \<^verbatim>\<open>didYouMean\<close> of the two branches that suggest names. \<^verbatim>\<open>OrList\<close> is called with
  \<^verbatim>\<open>maxLength\<close> 5 and returns (lemma \<open>OrList_returns\<close>), so the panic has no branch
  of its own in the coercer.
\<close>

definition didYouMean :: "string list \<Rightarrow> string" where
  "didYouMean suggestions =
     (if length suggestions > 0 then
        (case OrList suggestions 5 False of
           Returns list \<Rightarrow> ''did you mean '' @ list @ ''?''
         | Panic m \<Rightarrow> [])
      else [])"

text \<open>The branches of \<^verbatim>\<open>coerceValueImpl\<close> that do not recurse.\<close>

definition nonNullError ::
  "coercion_env \<Rightarrow> gtype \<Rightarrow> ErrorLocation option \<Rightarrow> valuePath \<Rightarrow> gvalue \<times> Error list" where
  "nonNullError env t blameNode path =
     (VNil, [newCoercionError
               (''Expected non-nullable type '' @ typeString env t @ '' not to be null'')
               blameNode path [] None])"

definition coerceScalar ::
  "coercion_env \<Rightarrow> gvalue \<Rightarrow> gtype \<Rightarrow> ErrorLocation option \<Rightarrow> valuePath \<Rightarrow>
   gvalue \<times> Error list" where
  "coerceScalar env v t blameNode path =
     (case coerceVariableValue env t v of
        Inl err \<Rightarrow>
          (VNil, [newCoercionError (''Expected type '' @ typeString env t) blameNode path
                    (case err of
                       CoreError e \<Rightarrow> if Kind e = ErrKindCoercion then Message e else []
                     | OtherError _ _ _ _ \<Rightarrow> [])
                    (Some err)])
      | Inr coerced \<Rightarrow> (coerced, []))"

definition coerceEnum ::
  "coercion_env \<Rightarrow> gvalue \<Rightarrow> gtype \<Rightarrow> string list \<Rightarrow> ErrorLocation option \<Rightarrow> valuePath \<Rightarrow>
   gvalue \<times> Error list" where
  "coerceEnum env v t enumValues blameNode path =
     (case coerceVariableValue env t v of
        Inl err \<Rightarrow>
          (VNil, [newCoercionError (''Expected type '' @ typeString env t) blameNode path
                    (didYouMean (suggestionList env (valueString env v) enumValues))
                    (Some err)])
      | Inr coerced \<Rightarrow> (coerced, []))"

definition notAnObject ::
  "coercion_env \<Rightarrow> gvalue \<Rightarrow> gtype \<Rightarrow> ErrorLocation option \<Rightarrow> valuePath \<Rightarrow>
   gvalue \<times> Error list" where
  "notAnObject env v t blameNode path =
     (VNil, [newCoercionError
               (''Expected type '' @ typeString env t @ '' to be an object'')
               blameNode path []
               (Some (NewError
                  (''value for InputObject should be given in a map[string]interface{}, but got: ''
                   @ valueTypeName env v) []))])"

definition notAnInputType ::
  "coercion_env \<Rightarrow> gtype \<Rightarrow> ErrorLocation option \<Rightarrow> valuePath \<Rightarrow> gvalue \<times> Error list" where
  "notAnInputType env t blameNode path =
     (VNil, [newCoercionError (typeString env t @ '' is not a valid input type'')
               blameNode path [] None])"

text \<open>
  The body of the element loop after the recursive call: \<open>r\<close> is what the call
  returned for the element, \<open>acc\<close> the pair (\<^verbatim>\<open>coercedValues\<close>, \<^verbatim>\<open>errs\<close>).
\<close>

definition elementDone ::
  "gvalue \<times> Error list \<Rightarrow> gvalue list \<times> Error list \<Rightarrow> gvalue list \<times> Error list" where
  "elementDone r acc =
     (case r of (coercedValue, elementErrs) \<Rightarrow>
      case acc of (coercedValues, errs) \<Rightarrow>
        if length elementErrs > 0 then (coercedValues, errs @ elementErrs)
        else if length errs = 0 then (coercedValues @ [coercedValue], errs)
        else (coercedValues, errs))"

definition listResult :: "gvalue list \<times> Error list \<Rightarrow> gvalue \<times> Error list" where
  "listResult r =
     (case r of (coercedValues, errs) \<Rightarrow>
        if length errs > 0 then (VNil, errs) else (VSlice coercedValues, []))"

definition singletonResult :: "gvalue \<times> Error list \<Rightarrow> gvalue \<times> Error list" where
  "singletonResult r =
     (case r of (coercedValue, errs) \<Rightarrow>
        if length errs > 0 then (VNil, errs) else (VSlice [coercedValue], []))"

text \<open>
  The field loop of the input object case. \<^verbatim>\<open>coercedValue\<close> is the Go map under
  construction; every declared field is visited once, so \<^verbatim>\<open>coercedValue[name] = x\<close>
  adds the entry at the end. \<open>fieldDone\<close> is the branch of a provided field after
  the recursive call, \<open>fieldAbsent\<close> the branch of a field the value does not
  provide (\<open>path\<close> already holds the field's name).
\<close>

definition fieldDone ::
  "string \<Rightarrow> gvalue \<times> Error list \<Rightarrow> (string \<times> gvalue) list \<times> Error list \<Rightarrow>
   (string \<times> gvalue) list \<times> Error list" where
  "fieldDone name r acc =
     (case r of (coercedField, fieldErrs) \<Rightarrow>
      case acc of (coercedValue, errs) \<Rightarrow>
        if length fieldErrs > 0 then (coercedValue, errs @ fieldErrs)
        else if length errs = 0 then (coercedValue @ [(name, coercedField)], errs)
        else (coercedValue, errs))"

definition fieldAbsent ::
  "coercion_env \<Rightarrow> string \<Rightarrow> gtype \<Rightarrow> gvalue option \<Rightarrow> ErrorLocation option \<Rightarrow> valuePath \<Rightarrow>
   (string \<times> gvalue) list \<times> Error list \<Rightarrow> (string \<times> gvalue) list \<times> Error list" where
  "fieldAbsent env name fieldType dflt blameNode path acc =
     (case acc of (coercedValue, errs) \<Rightarrow>
      case dflt of
        Some d \<Rightarrow> (coercedValue @ [(name, d)], errs)
      | None \<Rightarrow>
          if IsNonNullType fieldType then
            (coercedValue,
             errs @ [newCoercionError
                       (''Field '' @ valuePath_String path
                        @ '' of required type '' @ typeString env fieldType
                        @ '' was not provided'')
                       blameNode [] [] None])
          else (coercedValue, errs))"

text \<open>The second loop of the input object case: every provided key must be declared.\<close>

fun undefinedFields ::
  "coercion_env \<Rightarrow> gtype \<Rightarrow> (string \<times> gtype \<times> gvalue option) list \<Rightarrow>
   ErrorLocation option \<Rightarrow> valuePath \<Rightarrow> (string \<times> gvalue) list \<Rightarrow> Error list \<Rightarrow> Error list" where
  "undefinedFields env t flds blameNode path [] errs = errs"
| "undefinedFields env t flds blameNode path ((name, _) # objectValue) errs =
     undefinedFields env t flds blameNode path objectValue
       (if map_of flds name = None then
          errs @ [newCoercionError
                    (''Field '' @ [CHR 0x22] @ name @ [CHR 0x22] @ '' is not defined by type ''
                     @ typeString env t)
                    blameNode path
                    (didYouMean (suggestionList env name (map fst flds)))
                    None]
        else errs)"

definition objectResult ::
  "coercion_env \<Rightarrow> gtype \<Rightarrow> (string \<times> gtype \<times> gvalue option) list \<Rightarrow> ErrorLocation option \<Rightarrow>
   valuePath \<Rightarrow> (string \<times> gvalue) list \<Rightarrow> (string \<times> gvalue) list \<times> Error list \<Rightarrow>
   gvalue \<times> Error list" where
  "objectResult env t flds blameNode path objectValue r =
     (case r of (coercedValue, errs) \<Rightarrow>
        (let errs' = undefinedFields env t flds blameNode path objectValue errs
         in if length errs' > 0 then (VNil, errs') else (VMap coercedValue, [])))"

text \<open>
  \<^verbatim>\<open>coerceValueImpl\<close> with its two loops. The non-null test comes first; every other
  type returns nil for a nil value before the type switch. A type that is none of
  the five input types (an object or abstract type) is not a valid input type.
\<close>

function coerceValueImpl ::
      "coercion_env \<Rightarrow> gvalue \<Rightarrow> gtype \<Rightarrow> ErrorLocation option \<Rightarrow> valuePath \<Rightarrow>
       gvalue \<times> Error list"
  and coerceElements ::
      "coercion_env \<Rightarrow> gvalue list \<Rightarrow> int \<Rightarrow> gtype \<Rightarrow> ErrorLocation option \<Rightarrow> valuePath \<Rightarrow>
       gvalue list \<times> Error list \<Rightarrow> gvalue list \<times> Error list"
  and coerceFields ::
      "coercion_env \<Rightarrow> (string \<times> gtype \<times> gvalue option) list \<Rightarrow> (string \<times> gvalue) list \<Rightarrow>
       ErrorLocation option \<Rightarrow> valuePath \<Rightarrow>
       (string \<times> gvalue) list \<times> Error list \<Rightarrow> (string \<times> gvalue) list \<times> Error list"
where
  "coerceValueImpl env v (NonNull inner) blameNode path =
     (if v = VNil then nonNullError env (NonNull inner) blameNode path
      else coerceValueImpl env v inner blameNode path)"
| "coerceValueImpl env v (Scalar n) blameNode path =
     (if v = VNil then (VNil, []) else coerceScalar env v (Scalar n) blameNode path)"
| "coerceValueImpl env v (Enum n enumValues) blameNode path =
     (if v = VNil then (VNil, [])
      else coerceEnum env v (Enum n enumValues) enumValues blameNode path)"
| "coerceValueImpl env v (ListType elementType) blameNode path =
     (if v = VNil then (VNil, [])
      else case v of
             VSlice elems \<Rightarrow>
               (if length elems = 0 then (VSlice [], [])
                else listResult (coerceElements env elems 0 elementType blameNode path ([], [])))
           | _ \<Rightarrow> singletonResult (coerceValueImpl env v elementType blameNode path))"
| "coerceValueImpl env v (InputObject n flds) blameNode path =
     (if v = VNil then (VNil, [])
      else case v of
             VMap objectValue \<Rightarrow>
               objectResult env (InputObject n flds) flds blameNode path objectValue
                 (coerceFields env flds objectValue blameNode path ([], []))
           | _ \<Rightarrow> notAnObject env v (InputObject n flds) blameNode path)"
| "coerceValueImpl env v (Object n) blameNode path =
     (if v = VNil then (VNil, []) else notAnInputType env (Object n) blameNode path)"
| "coerceValueImpl env v (Abstract n) blameNode path =
     (if v = VNil then (VNil, []) else notAnInputType env (Abstract n) blameNode path)"
| "coerceElements env [] i elementType blameNode path acc = acc"
| "coerceElements env (elem # elems) i elementType blameNode path acc =
     coerceElements env elems (i + 1) elementType blameNode path
       (elementDone (coerceValueImpl env elem elementType blameNode (ListIndex i # path)) acc)"
| "coerceFields env [] objectValue blameNode path acc = acc"
| "coerceFields env ((name, fieldType, dflt) # flds) objectValue blameNode path acc =
     coerceFields env flds objectValue blameNode path
       (case map_of objectValue name of
          None \<Rightarrow> fieldAbsent env name fieldType dflt blameNode (FieldName name # path) acc
        | Some fieldValue \<Rightarrow>
            fieldDone name
              (coerceValueImpl env fieldValue fieldType blameNode (FieldName name # path)) acc)"
  by pat_completeness auto

definition fieldsSize :: "(string \<times> gtype \<times> gvalue option) list \<Rightarrow> nat" where
  "fieldsSize flds = sum_list (map (\<lambda>f. Suc (size (fst (snd f)))) flds)"

lemma fieldsSize_Cons [simp]:
  "fieldsSize ((name, t, d) # flds) = Suc (size t) + fieldsSize flds"
  by (simp add: fieldsSize_def)

lemma fieldsSize_le:
  "fieldsSize flds \<le> size_list (size_prod (\<lambda>_. 0) (size_prod size (\<lambda>_. 0))) flds"
  by (induction flds) (auto simp: fieldsSize_def)

termination coerceValueImpl
  apply (relation "measures
           [\<lambda>x. case x of
                   Inl (env, v, t, blameNode, path) \<Rightarrow> size t
                 | Inr (Inl (env, elems, i, t, blameNode, path, acc)) \<Rightarrow> size t
                 | Inr (Inr (env, flds, objectValue, blameNode, path, acc)) \<Rightarrow> fieldsSize flds,
            \<lambda>x. case x of
                   Inl _ \<Rightarrow> 0
                 | Inr (Inl (env, elems, i, t, blameNode, path, acc)) \<Rightarrow> Suc (length elems)
                 | Inr (Inr _) \<Rightarrow> 0]")
  apply (simp_all add: le_imp_less_Suc fieldsSize_le)
  done

definition CoerceValue ::
  "coercion_env \<Rightarrow> gvalue \<Rightarrow> gtype \<Rightarrow> ErrorLocation option \<Rightarrow> gvalue \<times> Error list" where
  "CoerceValue env v t blameNode = coerceValueImpl env v t blameNode []"

text \<open>
  Modelled from the spec: the \<^verbatim>\<open>String\<close> methods of the types are not among the sources.
  A type prints in GraphQL notation: a named type as its name, a list type in
  brackets, a non-null type with an exclamation mark after it.
\<close>

fun printType :: "gtype \<Rightarrow> string" where
  "printType (Scalar name) = name"
| "printType (Enum name enumValues) = name"
| "printType (InputObject name flds) = name"
| "printType (Object name) = name"
| "printType (Abstract name) = name"
| "printType (ListType t) = ''['' @ printType t @ '']''"
| "printType (NonNull t) = printType t @ ''!''"

text \<open>
  A concrete environment for the examples: types print in GraphQL notation, and
  every scalar accepts every value unchanged.
\<close>

definition exampleCoercionEnv :: coercion_env where
  "exampleCoercionEnv =
     \<lparr> typeString = printType,
       valueString = (\<lambda>v. ''?''),
       valueTypeName = (\<lambda>v. ''?''),
       coerceVariableValue = (\<lambda>t v. Inr v),
       suggestionList = (\<lambda>s cs. []) \<rparr>"

text \<open>
  Two runs of the field loop agree when they hold the same errors and, as long as
  there are none, the same map: once an error is recorded the map is discarded.
\<close>

definition accAgree ::
  "(string \<times> gvalue) list \<times> Error list \<Rightarrow> (string \<times> gvalue) list \<times> Error list \<Rightarrow> bool" where
  "accAgree a b = (snd a = snd b \<and> (snd a = [] \<longrightarrow> fst a = fst b))"


text \<open>An input object type with two defaulted fields, the first of list type.\<close>

definition exampleInput :: gtype where
  "exampleInput =
     InputObject ''O''
       [(''f'', ListType (Scalar ''Int''), Some (VInt 5)),
        (''g'', Scalar ''Int'', Some (VInt 7))]"


section \<open>The executor (package executor, execute.go): data\<close>

text \<open>
  Modelled from the spec: package \<^verbatim>\<open>ast\<close> is not among the sources. A field selection
  exposes its optional alias, its name, its arguments, its directives, its
  selection set and its location; an inline fragment its optional type condition,
  its directives and its selection set; a fragment spread its name and its
  directives. Arguments and directives are only handed on to
  \<^verbatim>\<open>values.ArgumentValues\<close> and \<^verbatim>\<open>values.DirectiveValues\<close>, so an argument is kept as its
  name and the text of its value. The response key of a field is its alias if
  present, else its name.
\<close>

type_synonym Argument = "string \<times> string"

type_synonym Directive = "string \<times> Argument list"

datatype Field =
  Field (Alias: "string option")
        (Name: string)
        (Arguments: "Argument list")
        (Directives: "Directive list")
        (SelectionSet: "Selection list")
        (Loc: ErrorLocation)
and Selection =
    FieldSelection Field
  | InlineFragment "string option" "Directive list" "Selection list"
  | FragmentSpread string "Directive list"

fun GetDirectives :: "Selection \<Rightarrow> Directive list" where
  "GetDirectives (FieldSelection f) = Directives f"
| "GetDirectives (InlineFragment typeCondition directives selectionSet) = directives"
| "GetDirectives (FragmentSpread name directives) = directives"

definition ResponseKey :: "Field \<Rightarrow> string" where
  "ResponseKey f = (case Alias f of Some a \<Rightarrow> a | None \<Rightarrow> Name f)"

text \<open>A \<^verbatim>\<open>graphql.Field\<close>, the schema's definition of a field: its name and its type.\<close>

record FieldDefinition =
  fieldName :: string
  fieldType :: gtype

text \<open>
  Modelled from the spec: the declaration of \<^verbatim>\<open>ExecutionNode\<close> is not among the sources.
  Nodes live in a heap, a list indexed by address; a pointer to a node is its
  address. \<open>NodeField\<close> is the Go field \<^verbatim>\<open>Field\<close> (nil for the root), \<open>Children\<close> the map from
  a runtime object type, identified by its name, to the slice of child nodes
  (\<open>None\<close> is the nil map; a key that is absent reads as the nil slice). The root
  node is the one with a nil parent.
\<close>

record ExecutionNode =
  Parent :: "nat option"
  Definitions :: "Field list"
  NodeField :: "FieldDefinition option"
  ArgumentValues :: "(string \<times> gvalue) list"
  Children :: "(string \<times> nat list) list option"

definition IsRoot :: "ExecutionNode \<Rightarrow> bool" where
  "IsRoot node = (Parent node = None)"

text \<open>
  What the executor reads through its \<^verbatim>\<open>*ExecutionContext\<close>: the operation's top-level
  selection set, its fragment definitions (name to type condition and selection
  set), the variable values, the root type and root value, and the schema
  (\<^verbatim>\<open>Fields()\<close> of an object type, \<^verbatim>\<open>TypeFromAST\<close>, \<^verbatim>\<open>PossibleTypes\<close>).
\<close>

record ExecutionContext =
  OperationSelectionSet :: "Selection list"
  FragmentDefs :: "(string \<times> string \<times> Selection list) list"
  VariableValues :: "(string \<times> gvalue) list"
  RootType :: string
  RootValue :: gvalue
  ObjectFields :: "string \<Rightarrow> (string \<times> FieldDefinition) list"
  TypeFromAST :: "string \<Rightarrow> gtype"
  PossibleTypes :: "gtype \<Rightarrow> gtype list"

text \<open>
  Modelled from the spec: the declaration of \<^verbatim>\<open>ResultNode\<close> is not among the sources.
  A result node has a parent, a kind, a value and the non-null flag that
  \<^verbatim>\<open>SetIsNonNull\<close> sets; \<^verbatim>\<open>IsNil\<close> asks whether its kind is Nil. Result nodes live in a
  heap of their own. A list value holds the addresses of its element nodes, an
  object value the execution nodes and the addresses of their result nodes.
\<close>

datatype ResultKind =
    ResultKindUnresolved
  | ResultKindNil
  | ResultKindLeaf
  | ResultKindList
  | ResultKindObject

datatype ResultValue =
    NoValue
  | LeafValue gvalue
  | ListValue "nat list"
  | ObjectValue "nat list" "nat list"

record ResultNode =
  rParent :: "nat option"
  rKind :: ResultKind
  rValue :: ResultValue
  rNonNull :: bool

definition IsNil :: "ResultNode \<Rightarrow> bool" where
  "IsNil r = (rKind r = ResultKindNil)"

definition zeroResultNode :: ResultNode where
  "zeroResultNode =
     \<lparr> rParent = None, rKind = ResultKindUnresolved, rValue = NoValue, rNonNull = False \<rparr>"

text \<open>An \<^verbatim>\<open>ExecuteNodeTask\<close>: its node, its result node and its source value.\<close>

record ExecuteNodeTask =
  tNode :: nat
  tResult :: nat
  tSource :: gvalue

text \<open>
  The state the executor works on: the two heaps, the errors recorded so far and
  the tasks dispatched so far.
\<close>

record exec_state =
  xNodes :: "ExecutionNode list"
  xResults :: "ResultNode list"
  xErrors :: "Error list"
  xTasks :: "ExecuteNodeTask list"

datatype DirectiveDef = SkipDirective | IncludeDirective

text \<open>
  What execute.go calls and the sources do not contain; parameters of the model.
  \<^verbatim>\<open>values.DirectiveValues\<close> and \<^verbatim>\<open>values.ArgumentValues\<close>; \<^verbatim>\<open>CoerceResultValue\<close> of a leaf
  type; \<^verbatim>\<open>graphql.NewDefaultResultCoercionError\<close>; how a type prints (\<^verbatim>\<open>Name()\<close>, \<^verbatim>\<open>%v\<close>);
  the name of \<^verbatim>\<open>parentFieldType\<close> of a node; \<^verbatim>\<open>ResultNode.Path\<close>; the resolver of a field
  (its own or the default one), given the node and the source; and the two
  methods of the \<^verbatim>\<open>executor\<close> interface, \<^verbatim>\<open>Dispatch\<close> and \<^verbatim>\<open>AppendError\<close>.
\<close>

record externals =
  DirectiveValues ::
    "DirectiveDef \<Rightarrow> Directive list \<Rightarrow> (string \<times> gvalue) list \<Rightarrow> goerror + (string \<times> gvalue) list"
  ArgumentValuesFor ::
    "FieldDefinition \<Rightarrow> Field \<Rightarrow> (string \<times> gvalue) list \<Rightarrow> goerror + (string \<times> gvalue) list"
  CoerceResultValue :: "gtype \<Rightarrow> gvalue \<Rightarrow> goerror + gvalue"
  NewDefaultResultCoercionError :: "string \<Rightarrow> gvalue \<Rightarrow> goerror \<Rightarrow> goerror"
  TypeName :: "gtype \<Rightarrow> string"
  TypePrint :: "gtype \<Rightarrow> string"
  ParentFieldTypeName :: "ExecutionNode list \<Rightarrow> nat \<Rightarrow> string"
  ResultPath :: "ResultNode list \<Rightarrow> nat \<Rightarrow> ResponsePath option"
  Resolve :: "FieldDefinition \<Rightarrow> ExecutionNode \<Rightarrow> gvalue \<Rightarrow> goerror + gvalue"
  Dispatch :: "ExecuteNodeTask \<Rightarrow> exec_state \<Rightarrow> exec_state"
  AppendError :: "Error \<Rightarrow> nat \<Rightarrow> exec_state \<Rightarrow> exec_state"

text \<open>
  A Go map as an association list: reading is \<open>map_of\<close>, and \<^verbatim>\<open>m[k] = v\<close> replaces the
  entry of \<open>k\<close> or adds one.
\<close>

fun mapPut :: "'k \<Rightarrow> 'v \<Rightarrow> ('k \<times> 'v) list \<Rightarrow> ('k \<times> 'v) list" where
  "mapPut k v [] = [(k, v)]"
| "mapPut k v (kv # m) = (if fst kv = k then (k, v) # m else kv # mapPut k v m)"

section \<open>Field collection\<close>

text \<open>
  \<^verbatim>\<open>x != nil && x.(bool)\<close> for the value \<^verbatim>\<open>Get("if")\<close> returns (nil when the argument is
  absent): the type assertion panics on a value that is not a bool.
\<close>

definition Get :: "(string \<times> gvalue) list \<Rightarrow> string \<Rightarrow> gvalue" where
  "Get args name = (case map_of args name of None \<Rightarrow> VNil | Some v \<Rightarrow> v)"

definition assertBool :: "gvalue \<Rightarrow> bool outcome" where
  "assertBool v =
     (case v of
        VBool b \<Rightarrow> Returns b
      | _ \<Rightarrow> Panic ''interface conversion: interface {} is not bool'')"

definition shouldIncludeNode ::
  "externals \<Rightarrow> ExecutionContext \<Rightarrow> Selection \<Rightarrow> (goerror + bool) outcome" where
  "shouldIncludeNode ext ctx node =
     (case DirectiveValues ext SkipDirective (GetDirectives node) (VariableValues ctx) of
        Inl err \<Rightarrow> Returns (Inl err)
      | Inr skip \<Rightarrow>
          (let shouldSkip = Get skip ''if'' in
           case (if shouldSkip \<noteq> VNil then assertBool shouldSkip else Returns False) of
             Panic m \<Rightarrow> Panic m
           | Returns True \<Rightarrow> Returns (Inr False)
           | Returns False \<Rightarrow>
               (case DirectiveValues ext IncludeDirective (GetDirectives node) (VariableValues ctx) of
                  Inl err \<Rightarrow> Returns (Inl err)
                | Inr include \<Rightarrow>
                    (let shouldInclude = Get include ''if'' in
                     case (if shouldInclude \<noteq> VNil then assertBool shouldInclude
                           else Returns True) of
                       Panic m \<Rightarrow> Panic m
                     | Returns False \<Rightarrow> Returns (Inr False)
                     | Returns True \<Rightarrow> Returns (Inr True)))))"

definition findFieldDef :: "ExecutionContext \<Rightarrow> string \<Rightarrow> string \<Rightarrow> FieldDefinition option" where
  "findFieldDef ctx parentType name = map_of (ObjectFields ctx parentType) name"

text \<open>
  \<^verbatim>\<open>doesTypeConditionSatisfy\<close>. The second test asks whether \<open>t\<close> itself, the runtime
  type, is an abstract type, and then looks for \<open>t\<close> among its own possible types.
\<close>

definition doesTypeConditionSatisfy :: "ExecutionContext \<Rightarrow> string \<Rightarrow> gtype \<Rightarrow> bool" where
  "doesTypeConditionSatisfy ctx typeCondition t =
     (if TypeFromAST ctx typeCondition = t then True
      else case t of
             Abstract _ \<Rightarrow> t \<in> set (PossibleTypes ctx t)
           | _ \<Rightarrow> False)"

text \<open>
  The local state of \<^verbatim>\<open>buildChildExecutionNodesForSelectionSet\<close>: the stack of tasks
  (its top is the last element, as in the Go slice), the names of the fragments
  visited, the map from response key to node, the result list, and the heap of
  execution nodes, in which the new nodes are allocated.
\<close>

record collect_state =
  cStack :: "(Selection list \<times> nat) list"
  cVisited :: "string list"
  cFields :: "(string \<times> nat) list"
  cChildNodes :: "nat list"
  cNodes :: "ExecutionNode list"

text \<open>
  \<^verbatim>\<open>data.selectionIndex++\<close> on the top of the stack, and the pop when the selection
  set is exhausted.
\<close>

definition advance :: "collect_state \<Rightarrow> Selection list \<Rightarrow> nat \<Rightarrow> collect_state" where
  "advance st selectionSet selectionIndex =
     (let stack = (cStack st)[length (cStack st) - 1 := (selectionSet, selectionIndex + 1)]
      in if selectionIndex + 1 \<ge> length selectionSet
         then st\<lparr>cStack := butlast stack\<rparr>
         else st\<lparr>cStack := stack\<rparr>)"

text \<open>The case \<^verbatim>\<open>*ast.Field\<close> of the switch.\<close>

definition collectField ::
  "externals \<Rightarrow> ExecutionContext \<Rightarrow> nat \<Rightarrow> string \<Rightarrow> Field \<Rightarrow> collect_state \<Rightarrow>
   goerror + collect_state" where
  "collectField ext ctx parentNode runtimeType selection st =
     (let name = ResponseKey selection in
      case map_of (cFields st) name of
        Some field \<Rightarrow>
          Inr (st\<lparr>cNodes := (cNodes st)
                     [field := (cNodes st ! field)
                        \<lparr>Definitions := Definitions (cNodes st ! field) @ [selection]\<rparr>]\<rparr>)
      | None \<Rightarrow>
          (case findFieldDef ctx runtimeType (Name selection) of
             None \<Rightarrow> Inr st
           | Some fieldDef \<Rightarrow>
               (case ArgumentValuesFor ext fieldDef selection (VariableValues ctx) of
                  Inl err \<Rightarrow> Inl err
                | Inr arguments \<Rightarrow>
                    (let field = length (cNodes st) in
                     Inr (st\<lparr>cNodes := cNodes st @
                                [\<lparr> Parent = Some parentNode,
                                   Definitions = [selection],
                                   NodeField = Some fieldDef,
                                   ArgumentValues = arguments,
                                   Children = None \<rparr>],
                              cChildNodes := cChildNodes st @ [field],
                              cFields := mapPut name field (cFields st)\<rparr>)))))"

definition pushTask :: "Selection list \<Rightarrow> collect_state \<Rightarrow> collect_state" where
  "pushTask selectionSet st = st\<lparr>cStack := cStack st @ [(selectionSet, 0)]\<rparr>"

text \<open>
  The switch on the selection. The result is the new state and \<^verbatim>\<open>interrupted\<close>.
\<close>

definition visitSelection ::
  "externals \<Rightarrow> ExecutionContext \<Rightarrow> nat \<Rightarrow> string \<Rightarrow> Selection \<Rightarrow> collect_state \<Rightarrow>
   goerror + (collect_state \<times> bool)" where
  "visitSelection ext ctx parentNode runtimeType selection st =
     (case selection of
        FieldSelection f \<Rightarrow>
          (case collectField ext ctx parentNode runtimeType f st of
             Inl err \<Rightarrow> Inl err
           | Inr st' \<Rightarrow> Inr (st', False))
      | InlineFragment typeCondition directives selectionSet \<Rightarrow>
          (case typeCondition of
             Some tc \<Rightarrow>
               if \<not> doesTypeConditionSatisfy ctx tc (Object runtimeType) then Inr (st, False)
               else Inr (pushTask selectionSet st, True)
           | None \<Rightarrow> Inr (pushTask selectionSet st, True))
      | FragmentSpread fragmentName directives \<Rightarrow>
          (if fragmentName \<in> set (cVisited st) then Inr (st, False)
           else
             (let st' = st\<lparr>cVisited := fragmentName # cVisited st\<rparr> in
              case map_of (FragmentDefs ctx) fragmentName of
                None \<Rightarrow> Inr (st', False)
              | Some (typeCondition, selectionSet) \<Rightarrow>
                  if \<not> doesTypeConditionSatisfy ctx typeCondition (Object runtimeType)
                  then Inr (st', False)
                  else Inr (pushTask selectionSet st', True))))"

text \<open>
  The inner loop \<^verbatim>\<open>for data.selectionIndex < numSelections && !interrupted\<close>, from
  the index the task on top of the stack holds. An error ends the whole function.
\<close>

function selectionLoop ::
  "externals \<Rightarrow> ExecutionContext \<Rightarrow> nat \<Rightarrow> string \<Rightarrow> Selection list \<Rightarrow> nat \<Rightarrow> collect_state \<Rightarrow>
   (goerror + collect_state) outcome" where
  "selectionLoop ext ctx parentNode runtimeType selectionSet selectionIndex st =
     (if selectionIndex < length selectionSet then
        (let selection = selectionSet ! selectionIndex;
             st1 = advance st selectionSet selectionIndex
         in case shouldIncludeNode ext ctx selection of
              Panic m \<Rightarrow> Panic m
            | Returns (Inl err) \<Rightarrow> Returns (Inl err)
            | Returns (Inr shouldInclude) \<Rightarrow>
                if \<not> shouldInclude then
                  selectionLoop ext ctx parentNode runtimeType selectionSet (selectionIndex + 1) st1
                else
                  (case visitSelection ext ctx parentNode runtimeType selection st1 of
                     Inl err \<Rightarrow> Returns (Inl err)
                   | Inr (st2, interrupted) \<Rightarrow>
                       if interrupted then Returns (Inr st2)
                       else selectionLoop ext ctx parentNode runtimeType selectionSet
                              (selectionIndex + 1) st2))
      else Returns (Inr st))"
  by pat_completeness auto
termination
  by (relation "measure (\<lambda>(ext, ctx, parentNode, runtimeType, selectionSet, selectionIndex, st).
                  length selectionSet - selectionIndex)") auto

declare selectionLoop.simps [simp del]

text \<open>
  The outer loop \<^verbatim>\<open>for len(stack) > 0\<close>. It does not end when a selection set on the
  stack is empty (the inner loop then leaves the stack as it is), so it runs on
  fuel: \<open>None\<close> is a run that has not returned within the given number of rounds.
\<close>

fun collectLoop ::
  "nat \<Rightarrow> externals \<Rightarrow> ExecutionContext \<Rightarrow> nat \<Rightarrow> string \<Rightarrow> collect_state \<Rightarrow>
   (goerror + collect_state) outcome option" where
  "collectLoop 0 ext ctx parentNode runtimeType st = None"
| "collectLoop (Suc fuel) ext ctx parentNode runtimeType st =
     (if length (cStack st) > 0 then
        (case last (cStack st) of
           (selectionSet, selectionIndex) \<Rightarrow>
             (case selectionLoop ext ctx parentNode runtimeType selectionSet selectionIndex st of
                Panic m \<Rightarrow> Some (Panic m)
              | Returns (Inl err) \<Rightarrow> Some (Returns (Inl err))
              | Returns (Inr st') \<Rightarrow> collectLoop fuel ext ctx parentNode runtimeType st'))
      else Some (Returns (Inr st)))"

text \<open>
  The initial stack: the operation's selection set for the root, else the
  selection sets of the node's definitions in reverse order.
\<close>

definition initialStack :: "ExecutionContext \<Rightarrow> ExecutionNode \<Rightarrow> (Selection list \<times> nat) list" where
  "initialStack ctx parentNode =
     (if IsRoot parentNode then [(OperationSelectionSet ctx, 0)]
      else rev (map (\<lambda>definition. (SelectionSet definition, 0)) (Definitions parentNode)))"

text \<open>
  \<^verbatim>\<open>buildChildExecutionNodesForSelectionSet\<close> returns the child nodes and the heap that
  holds them; on an error the nodes built so far are unreachable and the heap is
  returned as it was.
\<close>

definition buildChildExecutionNodesForSelectionSet ::
  "nat \<Rightarrow> externals \<Rightarrow> ExecutionContext \<Rightarrow> nat \<Rightarrow> string \<Rightarrow> ExecutionNode list \<Rightarrow>
   ((goerror + nat list) \<times> ExecutionNode list) outcome option" where
  "buildChildExecutionNodesForSelectionSet fuel ext ctx parentNode runtimeType heap =
     (case collectLoop fuel ext ctx parentNode runtimeType
             \<lparr> cStack = initialStack ctx (heap ! parentNode),
               cVisited = [],
               cFields = [],
               cChildNodes = [],
               cNodes = heap \<rparr> of
        None \<Rightarrow> None
      | Some (Panic m) \<Rightarrow> Some (Panic m)
      | Some (Returns (Inl err)) \<Rightarrow> Some (Returns (Inl err, heap))
      | Some (Returns (Inr st)) \<Rightarrow> Some (Returns (Inr (cChildNodes st), cNodes st)))"

text \<open>
  \<^verbatim>\<open>collectFields\<close>. \<open>childNodes\<close> is \<open>None\<close> for the nil slice. Writing to a nil map
  panics in Go; the map is never nil at the final store.
\<close>

definition storeChildren :: "nat \<Rightarrow> string \<Rightarrow> nat list \<Rightarrow> ExecutionNode list \<Rightarrow> ExecutionNode list outcome" where
  "storeChildren node runtimeType childNodes heap =
     (case Children (heap ! node) of
        None \<Rightarrow> Panic ''assignment to entry in nil map''
      | Some children \<Rightarrow>
          Returns (heap[node := (heap ! node)
                          \<lparr>Children := Some (mapPut runtimeType childNodes children)\<rparr>]))"

definition collectFields ::
  "nat \<Rightarrow> externals \<Rightarrow> ExecutionContext \<Rightarrow> nat \<Rightarrow> string \<Rightarrow> ExecutionNode list \<Rightarrow>
   ((goerror + nat list) \<times> ExecutionNode list) outcome option" where
  "collectFields fuel ext ctx node runtimeType heap =
     (let (heap1, childNodes) =
            (case Children (heap ! node) of
               None \<Rightarrow> (heap[node := (heap ! node)\<lparr>Children := Some []\<rparr>], None)
             | Some children \<Rightarrow> (heap, map_of children runtimeType))
      in case childNodes of
           Some found \<Rightarrow>
             (case storeChildren node runtimeType found heap1 of
                Panic m \<Rightarrow> Some (Panic m)
              | Returns heap2 \<Rightarrow> Some (Returns (Inr found, heap2)))
         | None \<Rightarrow>
             (case buildChildExecutionNodesForSelectionSet fuel ext ctx node runtimeType heap1 of
                None \<Rightarrow> None
              | Some (Panic m) \<Rightarrow> Some (Panic m)
              | Some (Returns (Inl err, heap2)) \<Rightarrow> Some (Returns (Inl err, heap2))
              | Some (Returns (Inr built, heap2)) \<Rightarrow>
                  (case storeChildren node runtimeType built heap2 of
                     Panic m \<Rightarrow> Some (Panic m)
                   | Returns heap3 \<Rightarrow> Some (Returns (Inr built, heap3)))))"

section \<open>What field collection is to compute\<close>

text \<open>
  The definitions of this section are not functions of the source: they state what
  the collection loop is compared with.
  A field selection is included when \<^verbatim>\<open>shouldIncludeNode\<close> returns true for it. The
  field selections collected under a response key, out of a list of field
  selections in textual order, are the included ones with that key, from the first
  one on that names a field of the runtime type (a selection met while no node
  exists for its key and naming no field of the runtime type is dropped). The key
  of a node is the response key of its first definition.
\<close>

definition included :: "externals \<Rightarrow> ExecutionContext \<Rightarrow> Field \<Rightarrow> bool" where
  "included ext ctx f = (shouldIncludeNode ext ctx (FieldSelection f) = Returns (Inr True))"

definition collected ::
  "externals \<Rightarrow> ExecutionContext \<Rightarrow> string \<Rightarrow> string \<Rightarrow> Field list \<Rightarrow> Field list" where
  "collected ext ctx runtimeType key fs =
     dropWhile (\<lambda>f. findFieldDef ctx runtimeType (Name f) = None)
       (filter (\<lambda>f. ResponseKey f = key \<and> included ext ctx f) fs)"

















text \<open>
  The invariant of the collection loop, for the field selections \<open>seen\<close> so far: the
  result list holds exactly the nodes allocated since the start, and the map from
  response key to node has an entry for a key exactly when some selection was
  collected under it, the node's definitions being those selections.
\<close>

definition coalesced ::
  "externals \<Rightarrow> ExecutionContext \<Rightarrow> string \<Rightarrow> nat \<Rightarrow> Field list \<Rightarrow> collect_state \<Rightarrow> bool" where
  "coalesced ext ctx runtimeType base seen st =
     (base \<le> length (cNodes st)
      \<and> cChildNodes st = [base ..< length (cNodes st)]
      \<and> (\<forall>key. map_of (cFields st) key = None \<longrightarrow>
                 collected ext ctx runtimeType key seen = [])
      \<and> (\<forall>key a. map_of (cFields st) key = Some a \<longrightarrow>
                 base \<le> a \<and> a < length (cNodes st)
                 \<and> Definitions (cNodes st ! a) = collected ext ctx runtimeType key seen
                 \<and> collected ext ctx runtimeType key seen \<noteq> [])
      \<and> (\<forall>a. base \<le> a \<and> a < length (cNodes st) \<longrightarrow> (\<exists>key. map_of (cFields st) key = Some a)))"

section \<open>Dispatching tasks and completing values\<close>

text \<open>Writes to one result node through its pointer.\<close>

definition setParent :: "nat \<Rightarrow> nat \<Rightarrow> exec_state \<Rightarrow> exec_state" where
  "setParent r parent s =
     s\<lparr>xResults := (xResults s)[r := (xResults s ! r)\<lparr>rParent := Some parent\<rparr>]\<rparr>"

definition SetIsNonNull :: "nat \<Rightarrow> exec_state \<Rightarrow> exec_state" where
  "SetIsNonNull r s = s\<lparr>xResults := (xResults s)[r := (xResults s ! r)\<lparr>rNonNull := True\<rparr>]\<rparr>"

definition setResult :: "nat \<Rightarrow> ResultKind \<Rightarrow> ResultValue \<Rightarrow> exec_state \<Rightarrow> exec_state" where
  "setResult r kind val s =
     s\<lparr>xResults := (xResults s)[r := (xResults s ! r)\<lparr>rKind := kind, rValue := val\<rparr>]\<rparr>"

text \<open>\<^verbatim>\<open>make([]ResultNode, n)\<close>: the addresses of the new nodes and the grown heap.\<close>

definition allocResults :: "nat \<Rightarrow> exec_state \<Rightarrow> nat list \<times> exec_state" where
  "allocResults n s =
     ([length (xResults s) ..< length (xResults s) + n],
      s\<lparr>xResults := xResults s @ replicate n zeroResultNode\<rparr>)"

text \<open>
  The loop of \<^verbatim>\<open>dispatchTasksForObject\<close> over the result nodes and their execution
  nodes. Calling \<^verbatim>\<open>Type()\<close> on the nil \<^verbatim>\<open>Field\<close> of a node panics.
\<close>

fun dispatchLoop ::
  "externals \<Rightarrow> nat \<Rightarrow> gvalue \<Rightarrow> (nat \<times> nat) list \<Rightarrow> exec_state \<Rightarrow> exec_state outcome" where
  "dispatchLoop ext result val [] s = Returns s"
| "dispatchLoop ext result val ((nodeResult, childNode) # rest) s =
     (let s1 = setParent nodeResult result s in
      case NodeField (xNodes s1 ! childNode) of
        None \<Rightarrow> Panic ''invalid memory address or nil pointer dereference''
      | Some field \<Rightarrow>
          (let s2 = (if IsNonNullType (fieldType field) then SetIsNonNull nodeResult s1 else s1)
           in dispatchLoop ext result val rest
                (Dispatch ext \<lparr> tNode = childNode, tResult = nodeResult, tSource = val \<rparr> s2)))"

definition dispatchTasksForObject ::
  "externals \<Rightarrow> nat \<Rightarrow> nat list \<Rightarrow> gvalue \<Rightarrow> exec_state \<Rightarrow> exec_state outcome" where
  "dispatchTasksForObject ext result childNodes val s =
     (case allocResults (length childNodes) s of
        (nodeResults, s1) \<Rightarrow>
          dispatchLoop ext result val (zip nodeResults childNodes)
            (setResult result ResultKindObject (ObjectValue childNodes nodeResults) s1))"

text \<open>
  \<^verbatim>\<open>collectAndDispatchRootTasks\<close> allocates the root node and the root result and
  returns the address of the latter.
\<close>

definition collectAndDispatchRootTasks ::
  "nat \<Rightarrow> externals \<Rightarrow> ExecutionContext \<Rightarrow> exec_state \<Rightarrow>
   ((goerror + nat) \<times> exec_state) outcome option" where
  "collectAndDispatchRootTasks fuel ext ctx s =
     (let rootNode = length (xNodes s);
          heap = xNodes s @ [\<lparr> Parent = None, Definitions = [], NodeField = None,
                               ArgumentValues = [], Children = None \<rparr>]
      in case collectFields fuel ext ctx rootNode (RootType ctx) heap of
           None \<Rightarrow> None
         | Some (Panic m) \<Rightarrow> Some (Panic m)
         | Some (Returns (Inl err, heap')) \<Rightarrow> Some (Returns (Inl err, s\<lparr>xNodes := heap'\<rparr>))
         | Some (Returns (Inr nodes, heap')) \<Rightarrow>
             (case allocResults 1 (s\<lparr>xNodes := heap'\<rparr>) of
                (rs, s1) \<Rightarrow>
                  (case dispatchTasksForObject ext (hd rs) nodes (RootValue ctx) s1 of
                     Panic m \<Rightarrow> Some (Panic m)
                   | Returns s2 \<Rightarrow> Some (Returns (Inr (hd rs), s2)))))"

text \<open>
  \<^verbatim>\<open>handleNodeError\<close>. A \<^verbatim>\<open>*graphql.Error\<close> gets its locations and path overwritten; any
  other error is wrapped by \<^verbatim>\<open>NewError\<close>, whose arguments are all of recognized types
  (lemma \<open>handleNodeError_wraps\<close>: the type assertion does not fail).

  Errors are values here, not objects: \<open>locateError\<close> gives the contents of the error
  object after the two writes, which is what \<^verbatim>\<open>AppendError\<close> is handed. The Go code
  writes through the caller's pointer, so another holder of the same pointer (the
  executor, had it recorded this very object before, or an error that has it as
  its cause) sees the new locations and path as well. The model does not follow
  such pointers: it describes the runs in which an error object reaches
  \<^verbatim>\<open>handleNodeError\<close> at most once, and no statement below reads the contents of the
  errors recorded.
\<close>

definition locateError :: "goerror \<Rightarrow> ErrorLocation list \<Rightarrow> ResponsePath option \<Rightarrow> Error" where
  "locateError err locations path =
     (case err of
        CoreError e \<Rightarrow>
          Error (Message e) locations path (Extensions e) (Err e) (Op e) (Kind e)
      | OtherError m _ _ _ \<Rightarrow>
          assertError (NewError m [ArgErrorLocations locations, ArgResponsePath path]))"

definition handleNodeError ::
  "externals \<Rightarrow> ExecuteNodeTask \<Rightarrow> goerror \<Rightarrow> nat \<Rightarrow> exec_state \<Rightarrow> exec_state" where
  "handleNodeError ext task err result s =
     (let node = xNodes s ! tNode task;
          locations = map Loc (Definitions node);
          path = ResultPath ext (xResults s) result;
          e = locateError err locations path
      in AppendError ext e result (setResult result ResultKindNil NoValue s))"

text \<open>
  Modelled from the spec: \<^verbatim>\<open>values.IsNullish\<close> is not among the sources; a value is
  null when it is nil.
\<close>

definition IsNullish :: "gvalue \<Rightarrow> bool" where
  "IsNullish v = (v = VNil)"

definition completeLeafValue ::
  "externals \<Rightarrow> ExecuteNodeTask \<Rightarrow> gtype \<Rightarrow> nat \<Rightarrow> gvalue \<Rightarrow> exec_state \<Rightarrow> bool \<times> exec_state" where
  "completeLeafValue ext task returnType result val s =
     (case CoerceResultValue ext returnType val of
        Inl err \<Rightarrow>
          (let err' = (case err of
                         CoreError e \<Rightarrow>
                           if Kind e \<noteq> ErrKindCoercion
                           then NewDefaultResultCoercionError ext (TypeName ext returnType) val err
                           else err
                       | OtherError _ _ _ _ \<Rightarrow>
                           NewDefaultResultCoercionError ext (TypeName ext returnType) val err)
           in (False, handleNodeError ext task err' result s))
      | Inr coercedValue \<Rightarrow> (True, setResult result ResultKindLeaf (LeafValue coercedValue) s))"

definition completeObjectValue ::
  "nat \<Rightarrow> externals \<Rightarrow> ExecutionContext \<Rightarrow> ExecuteNodeTask \<Rightarrow> string \<Rightarrow> nat \<Rightarrow> gvalue \<Rightarrow>
   exec_state \<Rightarrow> (bool \<times> exec_state) outcome option" where
  "completeObjectValue fuel ext ctx task returnType result val s =
     (case collectFields fuel ext ctx (tNode task) returnType (xNodes s) of
        None \<Rightarrow> None
      | Some (Panic m) \<Rightarrow> Some (Panic m)
      | Some (Returns (Inl err, heap)) \<Rightarrow>
          Some (Returns (False, handleNodeError ext task err result (s\<lparr>xNodes := heap\<rparr>)))
      | Some (Returns (Inr childNodes, heap)) \<Rightarrow>
          (case dispatchTasksForObject ext result childNodes val (s\<lparr>xNodes := heap\<rparr>) of
             Panic m \<Rightarrow> Some (Panic m)
           | Returns s' \<Rightarrow> Some (Returns (True, s'))))"

definition completeAbstractValue ::
  "externals \<Rightarrow> ExecuteNodeTask \<Rightarrow> string \<Rightarrow> nat \<Rightarrow> gvalue \<Rightarrow> exec_state \<Rightarrow>
   (bool \<times> exec_state) outcome" where
  "completeAbstractValue ext task returnType result val s = Panic ''unimplemented''"

definition completeNonWrappingValue ::
  "nat \<Rightarrow> externals \<Rightarrow> ExecutionContext \<Rightarrow> ExecuteNodeTask \<Rightarrow> gtype \<Rightarrow> nat \<Rightarrow> gvalue \<Rightarrow>
   exec_state \<Rightarrow> (bool \<times> exec_state) outcome option" where
  "completeNonWrappingValue fuel ext ctx task returnType result val s =
     (if IsNullish val then Some (Returns (True, setResult result ResultKindNil NoValue s))
      else case val of
             VError err \<Rightarrow> Some (Returns (False, handleNodeError ext task (CoreError err) result s))
           | _ \<Rightarrow>
               (case returnType of
                  Scalar _ \<Rightarrow> Some (Returns (completeLeafValue ext task returnType result val s))
                | Enum _ _ \<Rightarrow> Some (Returns (completeLeafValue ext task returnType result val s))
                | Object name \<Rightarrow> completeObjectValue fuel ext ctx task name result val s
                | Abstract name \<Rightarrow> Some (completeAbstractValue ext task name result val s)
                | _ \<Rightarrow>
                    Some (Returns (False,
                      handleNodeError ext task
                        (NewError (''Cannot complete value of unexpected type '' @ [CHR 0x22]
                                   @ TypePrint ext returnType @ [CHR 0x22] @ ''.'') [])
                        result s))))"

text \<open>
  The loop over the elements of a list whose element type is not a wrapping type:
  each element's result node gets its parent, then its value is completed; when
  that fails and the list's own result has become nil, the loop stops.
\<close>

fun completeElements ::
  "nat \<Rightarrow> externals \<Rightarrow> ExecutionContext \<Rightarrow> ExecuteNodeTask \<Rightarrow> gtype \<Rightarrow> nat \<Rightarrow>
   (nat \<times> gvalue) list \<Rightarrow> exec_state \<Rightarrow> exec_state outcome option" where
  "completeElements fuel ext ctx task elementType result [] s = Some (Returns s)"
| "completeElements fuel ext ctx task elementType result ((resultNode, val) # rest) s =
     (case completeNonWrappingValue fuel ext ctx task elementType resultNode val
             (setParent resultNode result s) of
        None \<Rightarrow> None
      | Some (Panic m) \<Rightarrow> Some (Panic m)
      | Some (Returns (ok, s')) \<Rightarrow>
          if \<not> ok \<and> IsNil (xResults s' ! result) then Some (Returns s')
          else completeElements fuel ext ctx task elementType result rest s')"

text \<open>
  \<^verbatim>\<open>reflect\<close>: a slice or array, possibly behind one pointer, and its elements.
\<close>

definition sliceOf :: "gvalue \<Rightarrow> gvalue list option" where
  "sliceOf v =
     (case v of
        VSlice elems \<Rightarrow> Some elems
      | VPtr (VSlice elems) \<Rightarrow> Some elems
      | _ \<Rightarrow> None)"

definition isWrappingType :: "gtype \<Rightarrow> bool" where
  "isWrappingType t = (case t of ListType _ \<Rightarrow> True | NonNull _ \<Rightarrow> True | _ \<Rightarrow> False)"

definition InnerType :: "gtype \<Rightarrow> gtype" where
  "InnerType t = (case t of NonNull inner \<Rightarrow> inner | _ \<Rightarrow> t)"

fun SetIsNonNullAll :: "nat list \<Rightarrow> exec_state \<Rightarrow> exec_state" where
  "SetIsNonNullAll [] s = s"
| "SetIsNonNullAll (r # rs) s = SetIsNonNullAll rs (SetIsNonNull r s)"

fun setParentAll :: "nat list \<Rightarrow> nat \<Rightarrow> exec_state \<Rightarrow> exec_state" where
  "setParentAll [] parent s = s"
| "setParentAll (r # rs) parent s = setParentAll rs parent (setParent r parent s)"

text \<open>
  The list branch of the loop body: the element results are allocated, flagged as
  non-null when the list type itself was unwrapped from a non-null type, and the
  list result is set up; elements of a wrapping type are queued, the others are
  completed at once. The result is what is appended to the queue, and the state.
\<close>

definition completeListValue ::
  "nat \<Rightarrow> externals \<Rightarrow> ExecutionContext \<Rightarrow> ExecuteNodeTask \<Rightarrow> bool \<Rightarrow> gtype \<Rightarrow> nat \<Rightarrow>
   gvalue list \<Rightarrow> exec_state \<Rightarrow> ((gtype \<times> nat \<times> gvalue) list \<times> exec_state) outcome option" where
  "completeListValue fuel ext ctx task isNonNullType elementType result elems s =
     (case allocResults (length elems) s of
        (resultNodes, s1) \<Rightarrow>
          (let s2 = (if isNonNullType then SetIsNonNullAll resultNodes s1 else s1);
               s3 = setResult result ResultKindList (ListValue resultNodes) s2
           in if isWrappingType elementType then
                Some (Returns (map (\<lambda>(resultNode, val). (elementType, resultNode, val))
                                 (zip resultNodes elems),
                               setParentAll resultNodes result s3))
              else
                (case completeElements fuel ext ctx task elementType result
                        (zip resultNodes elems) s3 of
                   None \<Rightarrow> None
                 | Some (Panic m) \<Rightarrow> Some (Panic m)
                 | Some (Returns s4) \<Rightarrow> Some (Returns ([], s4)))))"

text \<open>
  The two errors the loop body makes with \<^verbatim>\<open>fmt.Sprintf\<close>; \<^verbatim>\<open>node.Field.Name()\<close> panics
  on a node without a field.
\<close>

definition nullFieldError :: "externals \<Rightarrow> ExecuteNodeTask \<Rightarrow> exec_state \<Rightarrow> goerror outcome" where
  "nullFieldError ext task s =
     (case NodeField (xNodes s ! tNode task) of
        None \<Rightarrow> Panic ''invalid memory address or nil pointer dereference''
      | Some field \<Rightarrow>
          Returns (NewError (''Cannot return null for non-nullable field ''
                             @ ParentFieldTypeName ext (xNodes s) (tNode task) @ ''.''
                             @ fieldName field @ ''.'') []))"

definition notIterableError :: "externals \<Rightarrow> ExecuteNodeTask \<Rightarrow> exec_state \<Rightarrow> goerror outcome" where
  "notIterableError ext task s =
     (case NodeField (xNodes s ! tNode task) of
        None \<Rightarrow> Panic ''invalid memory address or nil pointer dereference''
      | Some field \<Rightarrow>
          Returns (NewError (''Expected Iterable, but did not find one for field ''
                             @ ParentFieldTypeName ext (xNodes s) (tNode task) @ ''.''
                             @ fieldName field @ ''.'') []))"

text \<open>
  One round of the queue loop of \<^verbatim>\<open>completeWrappingValue\<close>, for the value node popped
  from the queue. \<^verbatim>\<open>result.Parent.IsNil()\<close> dereferences the parent pointer.
\<close>

definition completeWrappingStep ::
  "nat \<Rightarrow> externals \<Rightarrow> ExecutionContext \<Rightarrow> ExecuteNodeTask \<Rightarrow> gtype \<times> nat \<times> gvalue \<Rightarrow>
   exec_state \<Rightarrow> ((gtype \<times> nat \<times> gvalue) list \<times> exec_state) outcome option" where
  "completeWrappingStep fuel ext ctx task valueNode s =
     (case valueNode of
        (returnType0, result, val) \<Rightarrow>
          (case rParent (xResults s ! result) of
             None \<Rightarrow> Some (Panic ''invalid memory address or nil pointer dereference'')
           | Some parent \<Rightarrow>
               if IsNil (xResults s ! parent) then Some (Returns ([], s))
               else
                 (let isNonNullType = IsNonNullType returnType0;
                      returnType = (if isNonNullType then InnerType returnType0 else returnType0)
                  in if IsNullish val then
                       (if isNonNullType then
                          (case nullFieldError ext task s of
                             Panic m \<Rightarrow> Some (Panic m)
                           | Returns err \<Rightarrow>
                               Some (Returns ([], handleNodeError ext task err result s)))
                        else Some (Returns ([], setResult result ResultKindNil NoValue s)))
                     else
                       (case returnType of
                          ListType elementType \<Rightarrow>
                            (case sliceOf val of
                               None \<Rightarrow>
                                 (case notIterableError ext task s of
                                    Panic m \<Rightarrow> Some (Panic m)
                                  | Returns err \<Rightarrow>
                                      Some (Returns ([], handleNodeError ext task err result s)))
                             | Some elems \<Rightarrow>
                                 completeListValue fuel ext ctx task isNonNullType elementType
                                   result elems s)
                        | _ \<Rightarrow>
                            (case completeNonWrappingValue fuel ext ctx task returnType result val s of
                               None \<Rightarrow> None
                             | Some (Panic m) \<Rightarrow> Some (Panic m)
                             | Some (Returns (ok, s')) \<Rightarrow> Some (Returns ([], s')))))))"

text \<open>
  The queue loop. Every value queued is an element of the value just popped, so the
  values in the queue shrink and the loop ends.
\<close>

definition queueSize :: "(gtype \<times> nat \<times> gvalue) list \<Rightarrow> nat" where
  "queueSize queue = sum_list (map (\<lambda>valueNode. Suc (size (snd (snd valueNode)))) queue)"

function completeWrappingLoop ::
  "nat \<Rightarrow> externals \<Rightarrow> ExecutionContext \<Rightarrow> ExecuteNodeTask \<Rightarrow> (gtype \<times> nat \<times> gvalue) list \<Rightarrow>
   exec_state \<Rightarrow> exec_state outcome option" where
  "completeWrappingLoop fuel ext ctx task [] s = Some (Returns s)"
| "completeWrappingLoop fuel ext ctx task (valueNode # queue) s =
     (case completeWrappingStep fuel ext ctx task valueNode s of
        None \<Rightarrow> None
      | Some (Panic m) \<Rightarrow> Some (Panic m)
      | Some (Returns (queued, s')) \<Rightarrow> completeWrappingLoop fuel ext ctx task (queue @ queued) s')"
  by pat_completeness auto

lemma queueSize_append: "queueSize (q @ q') = queueSize q + queueSize q'"
  by (simp add: queueSize_def)

lemma queueSize_zip:
  "queueSize (map (\<lambda>(resultNode, val). (elementType, resultNode, val)) (zip rs elems))
     \<le> size_list size elems"
proof (induction elems arbitrary: rs)
  case Nil
  then show ?case by (simp add: queueSize_def)
next
  case (Cons e elems)
  show ?case
  proof (cases rs)
    case Nil
    then show ?thesis by (simp add: queueSize_def)
  next
    case (Cons r rs')
    with Cons.IH [of rs'] show ?thesis by (simp add: queueSize_def)
  qed
qed

lemma sliceOf_size: "sliceOf v = Some elems \<Longrightarrow> size_list size elems < size v"
  by (auto simp: sliceOf_def split: gvalue.splits)

lemma completeListValue_queueSize:
  "completeListValue fuel ext ctx task isNonNullType elementType result elems s
     = Some (Returns (queued, s')) \<Longrightarrow> queueSize queued \<le> size_list size elems"
  using queueSize_zip [of elementType "fst (allocResults (length elems) s)" elems]
  by (auto simp: completeListValue_def Let_def queueSize_def
           split: prod.splits if_splits option.splits outcome.splits)

lemma completeWrappingStep_queueSize:
  assumes "completeWrappingStep fuel ext ctx task (returnType, result, val) s
             = Some (Returns (queued, s'))"
  shows "queueSize queued < Suc (size val)"
proof (cases "\<exists>elementType elems isNonNullType.
                sliceOf val = Some elems \<and>
                completeListValue fuel ext ctx task isNonNullType elementType result elems s
                  = Some (Returns (queued, s'))")
  case True
  then obtain elementType elems isNonNullType where
    "sliceOf val = Some elems"
    "completeListValue fuel ext ctx task isNonNullType elementType result elems s
       = Some (Returns (queued, s'))"
    by blast
  from sliceOf_size [OF this(1)] completeListValue_queueSize [OF this(2)]
  show ?thesis by simp
next
  case False
  with assms have "queued = []"
    by (auto simp: completeWrappingStep_def Let_def
             split: option.splits if_splits outcome.splits gtype.splits prod.splits)
  then show ?thesis by (simp add: queueSize_def)
qed

termination completeWrappingLoop
proof (relation "measure (\<lambda>(fuel, ext, ctx, task, queue, s). queueSize queue)")
  show "wf (measure (\<lambda>(fuel, ext, ctx, task, queue, s). queueSize queue))" by simp
next
  fix fuel ext ctx task valueNode queue s x2 x2a x y
  assume step: "completeWrappingStep fuel ext ctx task valueNode s = Some x2"
    and "x2 = Returns x2a" and "(x, y) = x2a"
  obtain returnType result val where v: "valueNode = (returnType, result, val)"
    by (cases valueNode)
  from step \<open>x2 = Returns x2a\<close> \<open>(x, y) = x2a\<close>
  have "completeWrappingStep fuel ext ctx task (returnType, result, val) s = Some (Returns (x, y))"
    by (simp add: v)
  from completeWrappingStep_queueSize [OF this]
  show "((fuel, ext, ctx, task, queue @ x, y), fuel, ext, ctx, task, valueNode # queue, s)
          \<in> measure (\<lambda>(fuel, ext, ctx, task, queue, s). queueSize queue)"
    by (simp add: queueSize_append v) (simp add: queueSize_def)
qed

definition completeWrappingValue ::
  "nat \<Rightarrow> externals \<Rightarrow> ExecutionContext \<Rightarrow> ExecuteNodeTask \<Rightarrow> gtype \<Rightarrow> nat \<Rightarrow> gvalue \<Rightarrow>
   exec_state \<Rightarrow> exec_state outcome option" where
  "completeWrappingValue fuel ext ctx task returnType result val s =
     (case val of
        VError err \<Rightarrow> Some (Returns (handleNodeError ext task (CoreError err) result s))
      | _ \<Rightarrow> completeWrappingLoop fuel ext ctx task [(returnType, result, val)] s)"

definition completeValue ::
  "nat \<Rightarrow> externals \<Rightarrow> ExecutionContext \<Rightarrow> ExecuteNodeTask \<Rightarrow> gtype \<Rightarrow> nat \<Rightarrow> gvalue \<Rightarrow>
   exec_state \<Rightarrow> exec_state outcome option" where
  "completeValue fuel ext ctx task returnType result val s =
     (if isWrappingType returnType then
        completeWrappingValue fuel ext ctx task returnType result val s
      else
        (case completeNonWrappingValue fuel ext ctx task returnType result val s of
           None \<Rightarrow> None
         | Some (Panic m) \<Rightarrow> Some (Panic m)
         | Some (Returns (ok, s')) \<Rightarrow> Some (Returns s')))"

text \<open>\<^verbatim>\<open>ExecuteNodeTask.Run\<close>.\<close>

definition Run ::
  "nat \<Rightarrow> externals \<Rightarrow> ExecutionContext \<Rightarrow> ExecuteNodeTask \<Rightarrow> exec_state \<Rightarrow>
   exec_state outcome option" where
  "Run fuel ext ctx task s =
     (case NodeField (xNodes s ! tNode task) of
        None \<Rightarrow> Some (Panic ''invalid memory address or nil pointer dereference'')
      | Some field \<Rightarrow>
          (case Resolve ext field (xNodes s ! tNode task) (tSource task) of
             Inl err \<Rightarrow> Some (Returns (handleNodeError ext task err (tResult task) s))
           | Inr val \<Rightarrow> completeValue fuel ext ctx task (fieldType field) (tResult task) val s))"

section \<open>A serial executor\<close>

text \<open>
  Modelled from the spec: no implementation of the \<^verbatim>\<open>executor\<close> interface is among the
  sources. \<^verbatim>\<open>Dispatch\<close> enqueues the task. \<^verbatim>\<open>AppendError\<close> appends the error to the error
  list and applies the null-bubbling rule to the node it is given: when a node
  that requires non-null has been set to Nil, its parent is set to Nil and its
  stored value discarded, and this repeats up the chain of parents. A parent is
  allocated before its children, so the walk goes to ever smaller addresses.
\<close>

function bubbleNil :: "ResultNode list \<Rightarrow> nat \<Rightarrow> ResultNode list" where
  "bubbleNil rs r =
     (if rNonNull (rs ! r) then
        (case rParent (rs ! r) of
           None \<Rightarrow> rs
         | Some parent \<Rightarrow>
             if parent < r
             then bubbleNil (rs[parent := (rs ! parent)\<lparr>rKind := ResultKindNil, rValue := NoValue\<rparr>])
                    parent
             else rs)
      else rs)"
  by pat_completeness auto
termination
  by (relation "measure (\<lambda>(rs, r). r)") auto

declare bubbleNil.simps [simp del]

definition serialDispatch :: "ExecuteNodeTask \<Rightarrow> exec_state \<Rightarrow> exec_state" where
  "serialDispatch task s = s\<lparr>xTasks := xTasks s @ [task]\<rparr>"

definition serialAppendError :: "Error \<Rightarrow> nat \<Rightarrow> exec_state \<Rightarrow> exec_state" where
  "serialAppendError e result s =
     s\<lparr>xErrors := xErrors s @ [e], xResults := bubbleNil (xResults s) result\<rparr>"

section \<open>Frames\<close>



section \<open>A concrete schema, operation and executor for the examples\<close>

text \<open>
  Directive values for the examples: the argument \<^verbatim>\<open>if\<close> of a directive that is
  present, read from the literal \<^verbatim>\<open>true\<close> or \<^verbatim>\<open>false\<close>; no values for an absent
  directive; an error for anything else.
\<close>

definition exampleDirectiveValues ::
  "DirectiveDef \<Rightarrow> Directive list \<Rightarrow> (string \<times> gvalue) list \<Rightarrow> goerror + (string \<times> gvalue) list" where
  "exampleDirectiveValues d directives variables =
     (case map_of directives (case d of SkipDirective \<Rightarrow> ''skip'' | IncludeDirective \<Rightarrow> ''include'') of
        None \<Rightarrow> Inr []
      | Some arguments \<Rightarrow>
          (if map_of arguments ''if'' = Some ''true'' then Inr [(''if'', VBool True)]
           else if map_of arguments ''if'' = Some ''false'' then Inr [(''if'', VBool False)]
           else Inl (OtherError ''Expected type Boolean!'' None None None)))"

text \<open>
  The executor of the examples is the serial one; a leaf type accepts ints only;
  the default resolver reads the property of the field's name from a map source.
\<close>

definition exampleExternals :: externals where
  "exampleExternals =
     \<lparr> DirectiveValues = exampleDirectiveValues,
       ArgumentValuesFor = (\<lambda>field selection variables. Inr []),
       CoerceResultValue =
         (\<lambda>t v. case v of
                   VInt i \<Rightarrow> Inr (VInt i)
                 | _ \<Rightarrow> Inl (OtherError ''not an integer'' None None None)),
       NewDefaultResultCoercionError =
         (\<lambda>name v err. NewError (''Expected a value of type '' @ name)
                          [ArgError err, ArgErrKind ErrKindCoercion]),
       TypeName = (\<lambda>t. case t of Scalar n \<Rightarrow> n | Object n \<Rightarrow> n | Abstract n \<Rightarrow> n | _ \<Rightarrow> []),
       TypePrint = (\<lambda>t. case t of Scalar n \<Rightarrow> n | Object n \<Rightarrow> n | Abstract n \<Rightarrow> n | _ \<Rightarrow> []),
       ParentFieldTypeName = (\<lambda>heap node. ''Query''),
       ResultPath = (\<lambda>results result. Some []),
       Resolve =
         (\<lambda>field node source.
            case source of
              VMap properties \<Rightarrow> Inr (Get properties (fieldName field))
            | _ \<Rightarrow> Inr VNil),
       Dispatch = serialDispatch,
       AppendError = serialAppendError \<rparr>"

definition exampleLoc :: "nat \<Rightarrow> nat \<Rightarrow> ErrorLocation" where
  "exampleLoc l c = \<lparr> Line = l, Column = c \<rparr>"

text \<open>
  The schema of the examples:
  \<^verbatim>\<open>type Query { a: Int, b: Int, list: [Int]!, ints: [Int!]!, node: Node }\<close>
  with \<^verbatim>\<open>Node\<close> an interface.
\<close>

definition exampleFields :: "string \<Rightarrow> (string \<times> FieldDefinition) list" where
  "exampleFields t =
     (if t = ''Query'' then
        [(''a'', \<lparr> fieldName = ''a'', fieldType = Scalar ''Int'' \<rparr>),
         (''b'', \<lparr> fieldName = ''b'', fieldType = Scalar ''Int'' \<rparr>),
         (''list'', \<lparr> fieldName = ''list'', fieldType = NonNull (ListType (Scalar ''Int'')) \<rparr>),
         (''ints'', \<lparr> fieldName = ''ints'',
                      fieldType = NonNull (ListType (NonNull (Scalar ''Int''))) \<rparr>),
         (''node'', \<lparr> fieldName = ''node'', fieldType = Abstract ''Node'' \<rparr>)]
      else [])"

definition exampleContext :: "Selection list \<Rightarrow> gvalue \<Rightarrow> ExecutionContext" where
  "exampleContext selectionSet rootValue =
     \<lparr> OperationSelectionSet = selectionSet,
       FragmentDefs = [],
       VariableValues = [],
       RootType = ''Query'',
       RootValue = rootValue,
       ObjectFields = exampleFields,
       TypeFromAST = (\<lambda>name. if name = ''Node'' then Abstract name else Object name),
       PossibleTypes = (\<lambda>t. []) \<rparr>"

definition emptyState :: exec_state where
  "emptyState = \<lparr> xNodes = [], xResults = [], xErrors = [], xTasks = [] \<rparr>"

text \<open>The field selection \<^verbatim>\<open>alias: name\<close> (or \<^verbatim>\<open>name\<close>) with the given directives.\<close>

definition exampleField :: "string option \<Rightarrow> string \<Rightarrow> Directive list \<Rightarrow> nat \<Rightarrow> Field" where
  "exampleField alias name directives column =
     Field alias name [] directives [] (exampleLoc 1 column)"

text \<open>The query \<^verbatim>\<open>{ list }\<close> on the root value \<^verbatim>\<open>{list: [1, null]}\<close>.\<close>

definition nullElementContext :: ExecutionContext where
  "nullElementContext =
     exampleContext [FieldSelection (exampleField None ''list'' [] 3)]
       (VMap [(''list'', VSlice [VInt 1, VNil])])"

text \<open>A field \<^verbatim>\<open>a\<close> carrying the given directives.\<close>

definition directedField :: "Directive list \<Rightarrow> Selection" where
  "directedField directives = FieldSelection (exampleField None ''a'' directives 3)"

text \<open>
  The state after \<^verbatim>\<open>collectAndDispatchRootTasks\<close> for that query: the root node and the
  node of the field \<^verbatim>\<open>list\<close>, the root result and the result of \<^verbatim>\<open>list\<close> (flagged non-null,
  its type being \<^verbatim>\<open>[Int]!\<close>), and the one task dispatched.
\<close>

definition listTask :: ExecuteNodeTask where
  "listTask = \<lparr> tNode = 1, tResult = 1, tSource = VMap [(''list'', VSlice [VInt 1, VNil])] \<rparr>"

definition listField :: ExecutionNode where
  "listField =
     \<lparr> Parent = Some 0,
       Definitions = [exampleField None ''list'' [] 3],
       NodeField = Some \<lparr> fieldName = ''list'', fieldType = NonNull (ListType (Scalar ''Int'')) \<rparr>,
       ArgumentValues = [],
       Children = None \<rparr>"

definition rootNode :: ExecutionNode where
  "rootNode =
     \<lparr> Parent = None, Definitions = [], NodeField = None, ArgumentValues = [],
       Children = Some [(''Query'', [1])] \<rparr>"

definition dispatchedState :: exec_state where
  "dispatchedState =
     \<lparr> xNodes = [rootNode, listField],
       xResults =
         [\<lparr> rParent = None, rKind = ResultKindObject, rValue = ObjectValue [1] [1], rNonNull = False \<rparr>,
          \<lparr> rParent = Some 0, rKind = ResultKindUnresolved, rValue = NoValue, rNonNull = True \<rparr>],
       xErrors = [],
       xTasks = [listTask] \<rparr>"

text \<open>The query \<^verbatim>\<open>{ a b a }\<close>, and the heap its collection under \<^verbatim>\<open>Query\<close> builds.\<close>

definition mergeFields :: "Field list" where
  "mergeFields =
     [exampleField None ''a'' [] 3, exampleField None ''b'' [] 5, exampleField None ''a'' [] 7]"

definition mergeContext :: ExecutionContext where
  "mergeContext = exampleContext (map FieldSelection mergeFields) VNil"

definition freshRoot :: ExecutionNode where
  "freshRoot =
     \<lparr> Parent = None, Definitions = [], NodeField = None, ArgumentValues = [], Children = None \<rparr>"

definition mergedHeap :: "ExecutionNode list" where
  "mergedHeap =
     [freshRoot\<lparr>Children := Some []\<rparr>,
      \<lparr> Parent = Some 0,
        Definitions = [exampleField None ''a'' [] 3, exampleField None ''a'' [] 7],
        NodeField = Some \<lparr> fieldName = ''a'', fieldType = Scalar ''Int'' \<rparr>,
        ArgumentValues = [],
        Children = None \<rparr>,
      \<lparr> Parent = Some 0,
        Definitions = [exampleField None ''b'' [] 5],
        NodeField = Some \<lparr> fieldName = ''b'', fieldType = Scalar ''Int'' \<rparr>,
        ArgumentValues = [],
        Children = None \<rparr>]"





section \<open>Properties of the error model\<close>

lemma applyArgs_unknown:
  "firstUnknown args = Some (t, v) \<Longrightarrow>
   applyArgs e args =
     Inl (OtherError (''unknown type '' @ t @ '', value '' @ v @ '' in error call'')
            None None None)"
proof (induction args arbitrary: e)
  case Nil
  then show ?case by simp
next
  case (Cons a as)
  obtain m ls p x c opr k where e: "e = Error m ls p x c opr k" by (cases e)
  from Cons show ?case unfolding e by (cases a) simp_all
qed

lemma firstUnknown_exists:
  "\<exists>a \<in> set args. isUnknown a \<Longrightarrow> \<exists>t v. firstUnknown args = Some (t, v)"
proof (induction args)
  case Nil
  then show ?case by simp
next
  case (Cons a as)
  then show ?case by (cases a) auto
qed

lemma firstUnknown_mem:
  "firstUnknown args = Some (t, v) \<Longrightarrow> ArgUnknown t v \<in> set args"
proof (induction args)
  case Nil
  then show ?case by simp
next
  case (Cons a as)
  then show ?case by (cases a) auto
qed

lemma applyArgs_known:
  "firstUnknown args = None \<Longrightarrow>
   \<exists>e'. applyArgs e args = Inr e' \<and> Kind e' = kindGiven args (Kind e)
        \<and> Err e' = causeGiven args (Err e) \<and> Message e' = Message e"
proof (induction args arbitrary: e)
  case Nil
  then show ?case by simp
next
  case (Cons a as)
  obtain m ls p x c opr k where e: "e = Error m ls p x c opr k" by (cases e)
  show ?case
  proof (cases a)
    case (ArgUnknown t v)
    with Cons.prems show ?thesis by simp
  next
    case (ArgErrorLocation l)
    with Cons.prems have "firstUnknown as = None" by simp
    from Cons.IH [OF this, of "Error m [l] p x c opr k"] ArgErrorLocation
    show ?thesis unfolding e by simp
  next
    case (ArgErrorLocations ls')
    with Cons.prems have "firstUnknown as = None" by simp
    from Cons.IH [OF this, of "Error m ls' p x c opr k"] ArgErrorLocations
    show ?thesis unfolding e by simp
  next
    case (ArgResponsePath p')
    with Cons.prems have "firstUnknown as = None" by simp
    from Cons.IH [OF this, of "Error m ls p' x c opr k"] ArgResponsePath
    show ?thesis unfolding e by simp
  next
    case (ArgErrorExtensions x')
    with Cons.prems have "firstUnknown as = None" by simp
    from Cons.IH [OF this, of "Error m ls p x' c opr k"] ArgErrorExtensions
    show ?thesis unfolding e by simp
  next
    case (ArgError err)
    with Cons.prems have "firstUnknown as = None" by simp
    from Cons.IH [OF this, of "Error m ls p x (Some err) opr k"] ArgError
    show ?thesis unfolding e by simp
  next
    case (ArgOp opr')
    with Cons.prems have "firstUnknown as = None" by simp
    from Cons.IH [OF this, of "Error m ls p x c opr' k"] ArgOp
    show ?thesis unfolding e by simp
  next
    case (ArgErrKind k')
    with Cons.prems have "firstUnknown as = None" by simp
    from Cons.IH [OF this, of "Error m ls p x c opr k'"] ArgErrKind
    show ?thesis unfolding e by simp
  qed
qed

lemma propagate_Kind:
  "Err e = Some (CoreError pe) \<Longrightarrow>
   Kind (propagate e) = (if Kind e = ErrKindOther then Kind pe else Kind e)"
  by (cases e) (simp add: propagateKind_def)

lemma propagate_Message: "Message (propagate e) = Message e"
proof (cases e)
  case (Error m ls p x c opr k)
  then show ?thesis by (cases c) simp_all
qed

text \<open>
  C8. Kind propagation in \<^verbatim>\<open>NewError\<close>. When every argument is of a recognized type
  and the underlying cause (the last \<^verbatim>\<open>error\<close> argument) is a core \<^verbatim>\<open>*Error\<close>, the call
  returns a \<^verbatim>\<open>*Error\<close> carrying the message whose kind is the cause's kind if the
  kind given by the arguments is \<^verbatim>\<open>ErrKindOther\<close> (none given, or \<^verbatim>\<open>ErrKindOther\<close> itself),
  and is the kind given by the arguments otherwise: an explicit kind other than
  \<^verbatim>\<open>ErrKindOther\<close> is never replaced by the cause's.
\<close>

theorem NewError_kind_propagation:
  assumes known: "firstUnknown args = None"
    and cause: "causeGiven args None = Some (CoreError pe)"
  shows "\<exists>e. NewError message args = CoreError e \<and> Message e = message \<and>
           Kind e = (if kindGiven args ErrKindOther = ErrKindOther then Kind pe
                     else kindGiven args ErrKindOther)"
proof -
  from applyArgs_known [OF known, of "Error message [] None None None [] ErrKindOther"]
  obtain e' where e': "applyArgs (Error message [] None None None [] ErrKindOther) args = Inr e'"
    and k: "Kind e' = kindGiven args ErrKindOther"
    and c: "Err e' = causeGiven args None"
    and m: "Message e' = message"
    by auto
  from c cause have "Err e' = Some (CoreError pe)" by simp
  from propagate_Kind [OF this] k
  have "Kind (propagate e') =
          (if kindGiven args ErrKindOther = ErrKindOther then Kind pe
           else kindGiven args ErrKindOther)"
    by simp
  moreover have "NewError message args = CoreError (propagate e')"
    by (simp add: NewError_def e')
  moreover have "Message (propagate e') = message"
    by (simp add: propagate_Message m)
  ultimately show ?thesis by blast
qed

theorem NewError_kind_propagation_witness:
  "(\<exists>e. NewError ''outer''
           [ArgError (CoreError (Error ''inner'' [] None None None [] ErrKindSyntax))]
         = CoreError e \<and> Message e = ''outer'' \<and> Kind e = ErrKindSyntax)
   \<and> (\<exists>e. NewError ''outer''
           [ArgErrKind ErrKindCoercion,
            ArgError (CoreError (Error ''inner'' [] None None None [] ErrKindSyntax))]
         = CoreError e \<and> Message e = ''outer'' \<and> Kind e = ErrKindCoercion)"
  using NewError_kind_propagation
          [of "[ArgError (CoreError (Error ''inner'' [] None None None [] ErrKindSyntax))]"
              "Error ''inner'' [] None None None [] ErrKindSyntax" "''outer''"]
        NewError_kind_propagation
          [of "[ArgErrKind ErrKindCoercion,
                ArgError (CoreError (Error ''inner'' [] None None None [] ErrKindSyntax))]"
              "Error ''inner'' [] None None None [] ErrKindSyntax" "''outer''"]
  by simp

text \<open>
  C10. When some variadic argument of \<^verbatim>\<open>NewError\<close> is of none of the recognized types,
  the call returns the plain error made by \<^verbatim>\<open>fmt.Errorf\<close>, reporting the type and value
  of (the first) such argument; it is not a \<^verbatim>\<open>*Error\<close>, and neither the message nor
  any other argument reaches the result.
\<close>

theorem NewError_unknown_argument:
  assumes "\<exists>a \<in> set args. isUnknown a"
  shows "\<exists>t v. ArgUnknown t v \<in> set args \<and> firstUnknown args = Some (t, v) \<and>
           NewError message args =
             OtherError (''unknown type '' @ t @ '', value '' @ v @ '' in error call'')
               None None None"
proof -
  from firstUnknown_exists [OF assms] obtain t v where f: "firstUnknown args = Some (t, v)"
    by blast
  from applyArgs_unknown [OF f]
  have "NewError message args =
          OtherError (''unknown type '' @ t @ '', value '' @ v @ '' in error call'')
            None None None"
    by (simp add: NewError_def)
  with f firstUnknown_mem [OF f] show ?thesis by blast
qed

theorem NewError_unknown_argument_witness:
  "NewError ''boom'' [ArgErrKind ErrKindExecution, ArgUnknown ''string'' ''oops'', ArgOp ''parse'']
     = OtherError ''unknown type string, value oops in error call'' None None None"
  using NewError_unknown_argument
          [of "[ArgErrKind ErrKindExecution, ArgUnknown ''string'' ''oops'', ArgOp ''parse'']"
              "''boom''"]
  by simp


section \<open>Properties of input coercion\<close>

lemma OrList_returns:
  "0 < maxLength \<Longrightarrow> \<exists>list. OrList items maxLength quoted = Returns list"
  by (cases items; cases maxLength) (auto simp: OrList_def Let_def split: list.splits)

lemma newCoercionError_is_NewError:
  "CoreError (newCoercionError message blameNode path subMessage originalError) =
     NewError (message
            @ (if path \<noteq> [] then '' at '' @ valuePath_String path else [])
            @ (if length subMessage > 0 then ''; '' @ subMessage else ''.''))
       (ArgErrorLocations (case blameNode of None \<Rightarrow> [] | Some l \<Rightarrow> [l])
        # (case originalError of None \<Rightarrow> [] | Some err \<Rightarrow> [ArgError err]))"
  by (cases originalError)
     (simp_all add: newCoercionError_def NewError_def assertError_def Let_def)

lemma newCoercionError_Message:
  "Message (newCoercionError message blameNode path subMessage originalError) =
     message @ (if path \<noteq> [] then '' at '' @ valuePath_String path else [])
       @ (if length subMessage > 0 then ''; '' @ subMessage else ''.'')"
  by (cases originalError)
     (simp_all add: newCoercionError_def NewError_def assertError_def propagate_Message Let_def)

text \<open>
  C6, as amended. Coercing nil against \<open>NonNull t\<close> returns nil and exactly one error.
  Its message names the non-null type itself as it prints, not the inner type \<open>t\<close>:
  it is \<^verbatim>\<open>Expected non-nullable type\<close>, then \<open>NonNull t\<close> as it prints, then
  \<^verbatim>\<open>not to be null\<close>, then \<^verbatim>\<open>at\<close> and the path if there is one, then a full stop.
  Coercing nil against a type that is not non-null returns nil and no error. A
  value other than nil is coerced against \<open>NonNull t\<close> exactly as against \<open>t\<close>.
\<close>

theorem coerceValueImpl_null:
  "(\<exists>e. coerceValueImpl env VNil (NonNull t) blameNode path = (VNil, [e]) \<and>
        Message e = ''Expected non-nullable type '' @ typeString env (NonNull t) @ '' not to be null''
                    @ (if path \<noteq> [] then '' at '' @ valuePath_String path else []) @ ''.'')
   \<and> (\<not> IsNonNullType t \<longrightarrow> coerceValueImpl env VNil t blameNode path = (VNil, []))
   \<and> (v \<noteq> VNil \<longrightarrow>
        coerceValueImpl env v (NonNull t) blameNode path = coerceValueImpl env v t blameNode path)"
proof (intro conjI impI)
  show "\<exists>e. coerceValueImpl env VNil (NonNull t) blameNode path = (VNil, [e]) \<and>
        Message e = ''Expected non-nullable type '' @ typeString env (NonNull t) @ '' not to be null''
                    @ (if path \<noteq> [] then '' at '' @ valuePath_String path else []) @ ''.''"
    by (simp add: nonNullError_def newCoercionError_Message)
next
  assume "\<not> IsNonNullType t"
  then show "coerceValueImpl env VNil t blameNode path = (VNil, [])"
    by (cases t) (simp_all add: IsNonNullType_def)
next
  assume "v \<noteq> VNil"
  then show "coerceValueImpl env v (NonNull t) blameNode path = coerceValueImpl env v t blameNode path"
    by simp
qed

theorem coerceValueImpl_null_witness:
  "coerceValueImpl exampleCoercionEnv VNil (ListType (NonNull (Scalar ''Int''))) None [] = (VNil, [])
   \<and> coerceValueImpl exampleCoercionEnv (VInt 3) (NonNull (Scalar ''Int'')) None [] = (VInt 3, [])
   \<and> (\<exists>e. coerceValueImpl exampleCoercionEnv VNil (NonNull (Scalar ''Int'')) None [ListIndex 1, FieldName ''ids'']
              = (VNil, [e])
          \<and> Message e = ''Expected non-nullable type Int! not to be null at value.ids[1].'')"
  using coerceValueImpl_null [of exampleCoercionEnv "ListType (NonNull (Scalar ''Int''))" None "[]" "VInt 3"]
        coerceValueImpl_null [of exampleCoercionEnv "Scalar ''Int''" None "[]" "VInt 3"]
        coerceValueImpl_null [of exampleCoercionEnv "Scalar ''Int''" None "[ListIndex 1, FieldName ''ids'']" "VInt 3"]
  by (simp add: IsNonNullType_def coerceScalar_def exampleCoercionEnv_def valuePath_String_def showInt_def)

text \<open>
  C6 as stated fails: for the non-null type \<^verbatim>\<open>Int!\<close> the inner type prints as \<^verbatim>\<open>Int\<close>,
  and the one error returned has the message
  \<^verbatim>\<open>Expected non-nullable type Int! not to be null.\<close>; no error of the list has the
  message \<^verbatim>\<open>Expected non-nullable type Int not to be null\<close>, with or without the full
  stop.
\<close>

theorem coerceValueImpl_null_counterexample:
  "typeString exampleCoercionEnv (Scalar ''Int'') = ''Int''
   \<and> map Message (snd (coerceValueImpl exampleCoercionEnv VNil (NonNull (Scalar ''Int'')) None []))
       = [''Expected non-nullable type Int! not to be null.'']
   \<and> ''Expected non-nullable type Int not to be null''
       \<notin> set (map Message
                 (snd (coerceValueImpl exampleCoercionEnv VNil (NonNull (Scalar ''Int'')) None [])))
   \<and> ''Expected non-nullable type Int not to be null.''
       \<notin> set (map Message
                 (snd (coerceValueImpl exampleCoercionEnv VNil (NonNull (Scalar ''Int'')) None [])))"
  by (simp add: nonNullError_def newCoercionError_Message exampleCoercionEnv_def)

lemma accAgree_fieldDone:
  "accAgree a b \<Longrightarrow> accAgree (fieldDone name r a) (fieldDone name r b)"
  by (cases a; cases b; cases r) (auto simp: accAgree_def fieldDone_def)

lemma accAgree_fieldAbsent:
  "accAgree a b \<Longrightarrow>
   accAgree (fieldAbsent env name t dflt blameNode path a) (fieldAbsent env name t dflt blameNode path b)"
  by (cases a; cases b) (auto simp: accAgree_def fieldAbsent_def split: option.splits)

lemma accAgree_default:
  "accAgree a b \<Longrightarrow>
   accAgree (fieldDone name (d, []) a) (fieldAbsent env name t (Some d) blameNode path b)"
  by (cases a; cases b) (auto simp: accAgree_def fieldAbsent_def fieldDone_def)

lemma map_of_without:
  "name \<noteq> f \<Longrightarrow> map_of (xs @ (f, d) # ys) name = map_of (xs @ ys) name"
  by (simp add: map_add_def split: option.splits)

lemma map_of_supplied:
  "f \<notin> fst ` set xs \<Longrightarrow> map_of (xs @ (f, d) # ys) f = Some d"
proof -
  assume "f \<notin> fst ` set xs"
  then have "map_of xs f = None" by (simp add: map_of_eq_None_iff)
  then show ?thesis by (simp add: map_add_def)
qed

lemma coerceFields_absent:
  "map_of objectValue name = None \<Longrightarrow>
   coerceFields env ((name, t, dflt) # flds) objectValue blameNode path acc =
     coerceFields env flds objectValue blameNode path
       (fieldAbsent env name t dflt blameNode (FieldName name # path) acc)"
  by simp

lemma coerceFields_provided:
  "map_of objectValue name = Some fieldValue \<Longrightarrow>
   coerceFields env ((name, t, dflt) # flds) objectValue blameNode path acc =
     coerceFields env flds objectValue blameNode path
       (fieldDone name (coerceValueImpl env fieldValue t blameNode (FieldName name # path)) acc)"
  by simp

lemma coerceFields_agree:
  assumes "\<forall>(name, t, dflt) \<in> set flds. name = f \<longrightarrow> t = ft \<and> dflt = Some d"
    and "f \<notin> fst ` set (xs @ ys)"
    and "coerceValueImpl env d ft blameNode (FieldName f # path) = (d, [])"
    and "accAgree a b"
  shows "accAgree (coerceFields env flds (xs @ (f, d) # ys) blameNode path a)
                  (coerceFields env flds (xs @ ys) blameNode path b)"
  using assms
proof (induction flds arbitrary: a b)
  case Nil
  then show ?case by simp
next
  case (Cons fld flds)
  obtain name t dflt where fld: "fld = (name, t, dflt)" by (cases fld)
  have rest: "\<forall>(name, t, dflt) \<in> set flds. name = f \<longrightarrow> t = ft \<and> dflt = Some d"
    using Cons.prems(1) by simp
  note IH = Cons.IH [OF rest Cons.prems(2) Cons.prems(3)]
  show ?case
  proof (cases "name = f")
    case True
    with Cons.prems(1) fld have t: "t = ft" and dflt: "dflt = Some d" by auto
    from Cons.prems(2) have "f \<notin> fst ` set xs" by auto
    then have sup: "map_of (xs @ (f, d) # ys) f = Some d" by (rule map_of_supplied)
    have om: "map_of (xs @ ys) f = None"
      using Cons.prems(2) by (simp add: map_of_eq_None_iff image_Un)
    have "accAgree (fieldDone f (d, []) a)
            (fieldAbsent env f ft (Some d) blameNode (FieldName f # path) b)"
      using Cons.prems(4) by (rule accAgree_default)
    then show ?thesis
      unfolding fld True t dflt coerceFields_provided [OF sup] coerceFields_absent [OF om]
        Cons.prems(3)
      by (rule IH)
  next
    case False
    then have eq: "map_of (xs @ (f, d) # ys) name = map_of (xs @ ys) name"
      by (rule map_of_without)
    show ?thesis
    proof (cases "map_of (xs @ ys) name")
      case None
      have "accAgree (fieldAbsent env name t dflt blameNode (FieldName name # path) a)
                     (fieldAbsent env name t dflt blameNode (FieldName name # path) b)"
        using Cons.prems(4) by (rule accAgree_fieldAbsent)
      then show ?thesis
        unfolding fld coerceFields_absent [OF None] coerceFields_absent [OF trans [OF eq None]]
        by (rule IH)
    next
      case (Some fv)
      have "accAgree (fieldDone name (coerceValueImpl env fv t blameNode (FieldName name # path)) a)
                     (fieldDone name (coerceValueImpl env fv t blameNode (FieldName name # path)) b)"
        using Cons.prems(4) by (rule accAgree_fieldDone)
      then show ?thesis
        unfolding fld coerceFields_provided [OF Some] coerceFields_provided [OF trans [OF eq Some]]
        by (rule IH)
    qed
  qed
qed

lemma undefinedFields_append:
  "undefinedFields env t flds blameNode path (xs @ ys) errs =
     undefinedFields env t flds blameNode path ys (undefinedFields env t flds blameNode path xs errs)"
  by (induction xs arbitrary: errs) auto

lemma undefinedFields_declared:
  "map_of flds f \<noteq> None \<Longrightarrow>
   undefinedFields env t flds blameNode path (xs @ (f, d) # ys) errs =
     undefinedFields env t flds blameNode path (xs @ ys) errs"
  by (cases "map_of flds f") (simp_all add: undefinedFields_append)

lemma undefinedFields_length:
  "length errs \<le> length (undefinedFields env t flds blameNode path ov errs)"
proof (induction ov arbitrary: errs)
  case Nil
  then show ?case by simp
next
  case (Cons kv ov)
  obtain name v where kv: "kv = (name, v)" by (cases kv)
  show ?case
  proof (cases "map_of flds name = None")
    case True
    with Cons [of "errs @ [newCoercionError
                    (''Field '' @ [CHR 0x22] @ name @ [CHR 0x22] @ '' is not defined by type ''
                     @ typeString env t)
                    blameNode path
                    (didYouMean (suggestionList env name (map fst flds)))
                    None]"]
    show ?thesis unfolding kv by simp
  next
    case False
    with Cons [of errs] show ?thesis unfolding kv by auto
  qed
qed

lemma undefinedFields_Nil:
  "undefinedFields env t flds blameNode path ov errs = [] \<Longrightarrow> errs = []"
  using undefinedFields_length [of errs env t flds blameNode path ov] by simp

lemma objectResult_agree:
  assumes "accAgree a b" and "map_of flds f \<noteq> None"
  shows "objectResult env t flds blameNode path (xs @ (f, d) # ys) a =
         objectResult env t flds blameNode path (xs @ ys) b"
proof -
  obtain cva ea where a: "a = (cva, ea)" by (cases a)
  obtain cvb eb where b: "b = (cvb, eb)" by (cases b)
  from assms(1) have e: "ea = eb" and cv: "ea = [] \<Longrightarrow> cva = cvb"
    by (auto simp: accAgree_def a b)
  show ?thesis
  proof (cases "undefinedFields env t flds blameNode path (xs @ ys) eb = []")
    case True
    then have "eb = []" by (rule undefinedFields_Nil)
    with cv e have "cva = cvb" by simp
    with True e show ?thesis
      by (simp add: objectResult_def a b undefinedFields_declared [OF assms(2)])
  next
    case False
    with e show ?thesis
      by (simp add: objectResult_def a b undefinedFields_declared [OF assms(2)])
  qed
qed

text \<open>
  C7, as amended. Let \<open>f\<close> be a field of an input object type with declared type \<open>ft\<close>
  and default \<open>d\<close>, and let coercing \<open>d\<close> against \<open>ft\<close> succeed and return \<open>d\<close> itself.
  Then coercing a map that supplies \<open>f\<close> with \<open>d\<close> gives the same value and the same
  errors as coercing the map with \<open>f\<close> left out. (The default of an omitted field is
  stored as it is, without being coerced; a supplied value is coerced.)
\<close>

theorem default_supplied_or_omitted:
  assumes declared: "map_of flds f = Some (ft, Some d)"
    and unique: "distinct (map fst flds)"
    and once: "f \<notin> fst ` set (xs @ ys)"
    and fixed: "coerceValueImpl env d ft blameNode (FieldName f # path) = (d, [])"
  shows "coerceValueImpl env (VMap (xs @ (f, d) # ys)) (InputObject n flds) blameNode path =
         coerceValueImpl env (VMap (xs @ ys)) (InputObject n flds) blameNode path"
proof -
  have all: "\<forall>(name, t, dflt) \<in> set flds. name = f \<longrightarrow> t = ft \<and> dflt = Some d"
  proof clarify
    fix t dflt assume "(f, t, dflt) \<in> set flds"
    with unique have "map_of flds f = Some (t, dflt)" by simp
    with declared show "t = ft \<and> dflt = Some d" by simp
  qed
  have "accAgree ([], []) ([], [])" by (simp add: accAgree_def)
  from coerceFields_agree [OF all once fixed this]
  have "accAgree (coerceFields env flds (xs @ (f, d) # ys) blameNode path ([], []))
                 (coerceFields env flds (xs @ ys) blameNode path ([], []))" .
  from objectResult_agree [OF this, of flds f]  declared
  show ?thesis by simp
qed

text \<open>
  C7 as stated fails where coercion changes the default: a field of list type whose
  default is the single item 5. Supplied, 5 is coerced to the one-element list;
  omitted, the default 5 is stored unchanged.
\<close>

theorem default_supplied_or_omitted_counterexample:
  "coerceValueImpl exampleCoercionEnv (VMap [(''f'', VInt 5)]) exampleInput None []
     \<noteq> coerceValueImpl exampleCoercionEnv (VMap []) exampleInput None []
   \<and> coerceValueImpl exampleCoercionEnv (VMap [(''f'', VInt 5)]) exampleInput None []
     = (VMap [(''f'', VSlice [VInt 5]), (''g'', VInt 7)], [])
   \<and> coerceValueImpl exampleCoercionEnv (VMap []) exampleInput None []
     = (VMap [(''f'', VInt 5), (''g'', VInt 7)], [])"
  by (simp add: exampleInput_def exampleCoercionEnv_def objectResult_def fieldAbsent_def fieldDone_def
        singletonResult_def coerceScalar_def)

theorem default_supplied_or_omitted_witness:
  "coerceValueImpl exampleCoercionEnv (VMap [(''g'', VInt 7)]) exampleInput None []
     = coerceValueImpl exampleCoercionEnv (VMap []) exampleInput None []
   \<and> coerceValueImpl exampleCoercionEnv (VMap []) exampleInput None []
     = (VMap [(''f'', VInt 5), (''g'', VInt 7)], [])"
  using default_supplied_or_omitted [of "[(''f'', ListType (Scalar ''Int''), Some (VInt 5)), (''g'', Scalar ''Int'', Some (VInt 7))]"
          "''g''" "Scalar ''Int''" "VInt 7" "[]" "[]" exampleCoercionEnv None "[]" "''O''"]
  by (simp add: exampleInput_def exampleCoercionEnv_def objectResult_def fieldAbsent_def fieldDone_def
        singletonResult_def coerceScalar_def)


section \<open>Field collection: directives\<close>

text \<open>The fields of the example executor, context and field selections.\<close>

lemma exampleExternals_sel:
  "DirectiveValues exampleExternals = exampleDirectiveValues"
  "ArgumentValuesFor exampleExternals = (\<lambda>field selection variables. Inr [])"
  "CoerceResultValue exampleExternals =
     (\<lambda>t v. case v of
               VInt i \<Rightarrow> Inr (VInt i)
             | _ \<Rightarrow> Inl (OtherError ''not an integer'' None None None))"
  "ParentFieldTypeName exampleExternals = (\<lambda>heap node. ''Query'')"
  "ResultPath exampleExternals = (\<lambda>results result. Some [])"
  "Resolve exampleExternals =
     (\<lambda>field node source.
        case source of
          VMap properties \<Rightarrow> Inr (Get properties (fieldName field))
        | _ \<Rightarrow> Inr VNil)"
  "Dispatch exampleExternals = serialDispatch"
  "AppendError exampleExternals = serialAppendError"
  by (simp_all add: exampleExternals_def)

lemma exampleContext_sel:
  "OperationSelectionSet (exampleContext selectionSet rootValue) = selectionSet"
  "FragmentDefs (exampleContext selectionSet rootValue) = []"
  "VariableValues (exampleContext selectionSet rootValue) = []"
  "RootType (exampleContext selectionSet rootValue) = ''Query''"
  "RootValue (exampleContext selectionSet rootValue) = rootValue"
  "ObjectFields (exampleContext selectionSet rootValue) = exampleFields"
  by (simp_all add: exampleContext_def)

lemma exampleField_sel:
  "Alias (exampleField alias name directives c) = alias"
  "Name (exampleField alias name directives c) = name"
  "Directives (exampleField alias name directives c) = directives"
  "SelectionSet (exampleField alias name directives c) = []"
  "Loc (exampleField alias name directives c) = exampleLoc 1 c"
  by (simp_all add: exampleField_def)

lemma nullElementContext_sel:
  "OperationSelectionSet nullElementContext = [FieldSelection (exampleField None ''list'' [] 3)]"
  "FragmentDefs nullElementContext = []"
  "VariableValues nullElementContext = []"
  "RootType nullElementContext = ''Query''"
  "RootValue nullElementContext = VMap [(''list'', VSlice [VInt 1, VNil])]"
  "ObjectFields nullElementContext = exampleFields"
  by (simp_all add: nullElementContext_def exampleContext_sel)


lemma shouldInclude_plain:
  "DirectiveValues ext = exampleDirectiveValues \<Longrightarrow>
   shouldIncludeNode ext ctx (FieldSelection (exampleField alias name [] c))
     = Returns (Inr True)"
  by (simp add: shouldIncludeNode_def exampleField_sel exampleDirectiveValues_def Get_def)

text \<open>
  C3. \<^verbatim>\<open>@skip\<close> is evaluated before \<^verbatim>\<open>@include\<close>: when the values of \<^verbatim>\<open>@skip\<close> cannot be
  computed the error is returned, and when its \<^verbatim>\<open>if\<close> is true the selection is
  omitted, in both cases whatever \<^verbatim>\<open>@include\<close> would give. \<^verbatim>\<open>@include(if: false)\<close> omits
  the selection when \<^verbatim>\<open>@skip\<close> is absent or false. When both directives are present
  the selection is included iff the skip condition is false and the include
  condition is true. A selection with neither directive is included.
\<close>

theorem shouldIncludeNode_directives:
  "(DirectiveValues ext SkipDirective (GetDirectives node) (VariableValues ctx) = Inl err
      \<longrightarrow> shouldIncludeNode ext ctx node = Returns (Inl err))
   \<and> (DirectiveValues ext SkipDirective (GetDirectives node) (VariableValues ctx) = Inr skip
        \<and> Get skip ''if'' = VBool True
      \<longrightarrow> shouldIncludeNode ext ctx node = Returns (Inr False))
   \<and> (DirectiveValues ext SkipDirective (GetDirectives node) (VariableValues ctx) = Inr skip
        \<and> (Get skip ''if'' = VNil \<or> Get skip ''if'' = VBool False)
        \<and> DirectiveValues ext IncludeDirective (GetDirectives node) (VariableValues ctx) = Inr include
        \<and> Get include ''if'' = VBool False
      \<longrightarrow> shouldIncludeNode ext ctx node = Returns (Inr False))
   \<and> (DirectiveValues ext SkipDirective (GetDirectives node) (VariableValues ctx) = Inr skip
        \<and> Get skip ''if'' = VBool s
        \<and> DirectiveValues ext IncludeDirective (GetDirectives node) (VariableValues ctx) = Inr include
        \<and> Get include ''if'' = VBool i
      \<longrightarrow> shouldIncludeNode ext ctx node = Returns (Inr (\<not> s \<and> i)))
   \<and> (DirectiveValues ext SkipDirective (GetDirectives node) (VariableValues ctx) = Inr skip
        \<and> Get skip ''if'' = VNil
        \<and> DirectiveValues ext IncludeDirective (GetDirectives node) (VariableValues ctx) = Inr include
        \<and> Get include ''if'' = VNil
      \<longrightarrow> shouldIncludeNode ext ctx node = Returns (Inr True))"
  by (auto simp: shouldIncludeNode_def assertBool_def Let_def split: bool.splits)

theorem shouldIncludeNode_directives_witness:
  "shouldIncludeNode exampleExternals (exampleContext [] VNil)
      (directedField [(''skip'', [(''if'', ''true'')]), (''include'', [(''if'', ''true'')])])
     = Returns (Inr False)
   \<and> shouldIncludeNode exampleExternals (exampleContext [] VNil)
      (directedField [(''include'', [(''if'', ''false'')])])
     = Returns (Inr False)
   \<and> shouldIncludeNode exampleExternals (exampleContext [] VNil)
      (directedField [(''skip'', [(''if'', ''false'')]), (''include'', [(''if'', ''true'')])])
     = Returns (Inr True)
   \<and> shouldIncludeNode exampleExternals (exampleContext [] VNil) (directedField [])
     = Returns (Inr True)
   \<and> (\<exists>err. shouldIncludeNode exampleExternals (exampleContext [] VNil)
      (directedField [(''skip'', [(''if'', ''1'')])])
     = Returns (Inl err))"
  using shouldIncludeNode_directives
          [of exampleExternals
              "directedField [(''skip'', [(''if'', ''true'')]), (''include'', [(''if'', ''true'')])]"
              "exampleContext [] VNil" "OtherError [] None None None"
              "[(''if'', VBool True)]" "[(''if'', VBool True)]" True True]
        shouldIncludeNode_directives
          [of exampleExternals
              "directedField [(''include'', [(''if'', ''false'')])]"
              "exampleContext [] VNil" "OtherError [] None None None"
              "[]" "[(''if'', VBool False)]" False False]
        shouldIncludeNode_directives
          [of exampleExternals
              "directedField [(''skip'', [(''if'', ''false'')]), (''include'', [(''if'', ''true'')])]"
              "exampleContext [] VNil" "OtherError [] None None None"
              "[(''if'', VBool False)]" "[(''if'', VBool True)]" False True]
        shouldIncludeNode_directives
          [of exampleExternals
              "directedField []"
              "exampleContext [] VNil" "OtherError [] None None None"
              "[]" "[]" False True]
        shouldIncludeNode_directives
          [of exampleExternals
              "directedField [(''skip'', [(''if'', ''1'')])]"
              "exampleContext [] VNil" "OtherError ''Expected type Boolean!'' None None None"
              "[]" "[]" False True]
  by (simp add: directedField_def exampleField_def exampleExternals_sel exampleDirectiveValues_def
        exampleContext_sel Get_def)

section \<open>Field collection: fields sharing a response key\<close>






lemma map_of_mapPut: "map_of (mapPut k v m) = (map_of m)(k \<mapsto> v)"
  by (induction m) (auto simp: fun_eq_iff)

lemma mapPut_same: "map_of m k = Some v \<Longrightarrow> mapPut k v m = m"
  by (induction m) (auto split: if_splits)


lemma collected_other:
  "ResponseKey f \<noteq> key \<or> \<not> included ext ctx f \<Longrightarrow>
   collected ext ctx runtimeType key (fs @ [f]) = collected ext ctx runtimeType key fs"
  by (auto simp: collected_def)



lemma advance_sel:
  "cNodes (advance st selectionSet i) = cNodes st"
  "cFields (advance st selectionSet i) = cFields st"
  "cChildNodes (advance st selectionSet i) = cChildNodes st"
  "cVisited (advance st selectionSet i) = cVisited st"
  by (simp_all add: advance_def Let_def)


lemma coalesced_excluded:
  assumes "\<not> included ext ctx f" and "coalesced ext ctx runtimeType base seen st"
  shows "coalesced ext ctx runtimeType base (seen @ [f]) st"
proof -
  have "collected ext ctx runtimeType key (seen @ [f]) = collected ext ctx runtimeType key seen"
    for key
    using assms(1) by (simp add: collected_other)
  with assms(2) show ?thesis by (simp add: coalesced_def)
qed





lemma selectionLoop_past:
  "\<not> i < length selectionSet \<Longrightarrow>
   selectionLoop ext ctx parentNode runtimeType selectionSet i st = Returns (Inr st)"
  by (simp add: selectionLoop.simps)

lemma collectLoop_empty_selection_set:
  "cStack st = [([], 0)] \<Longrightarrow> collectLoop fuel ext ctx parentNode runtimeType st = None"
  by (induction fuel) (simp_all add: selectionLoop.simps)

lemma collectLoop_done:
  "cStack st = [] \<Longrightarrow>
   collectLoop fuel ext ctx parentNode runtimeType st
     = (if fuel = 0 then None else Some (Returns (Inr st)))"
  by (cases fuel) simp_all





























section \<open>Field collection: the child nodes are built once\<close>

lemma collectField_length:
  "collectField ext ctx parentNode runtimeType f st = Inr st' \<Longrightarrow>
   length (cNodes st) \<le> length (cNodes st')"
  by (auto simp: collectField_def Let_def split: option.splits sum.splits)

lemma visitSelection_length:
  "visitSelection ext ctx parentNode runtimeType selection st = Inr (st', interrupted) \<Longrightarrow>
   length (cNodes st) \<le> length (cNodes st')"
  by (auto simp: visitSelection_def pushTask_def Let_def dest: collectField_length
           split: Selection.splits option.splits sum.splits if_splits prod.splits)

lemma selectionLoop_length:
  "selectionLoop ext ctx parentNode runtimeType selectionSet i st = Returns (Inr st') \<Longrightarrow>
   length (cNodes st) \<le> length (cNodes st')"
proof (induction "length selectionSet - i" arbitrary: i st)
  case 0
  then have "\<not> i < length selectionSet" by simp
  from selectionLoop_past [OF this] "0.prems" show ?case by simp
next
  case (Suc n)
  then have i: "i < length selectionSet" by simp
  have n: "n = length selectionSet - Suc i" using Suc.hyps(2) by simp
  from Suc.prems i consider
      (skip) "selectionLoop ext ctx parentNode runtimeType selectionSet (Suc i)
                (advance st selectionSet i) = Returns (Inr st')"
    | (stop) "visitSelection ext ctx parentNode runtimeType (selectionSet ! i)
                (advance st selectionSet i) = Inr (st', True)"
    | (visit) st2 where
        "visitSelection ext ctx parentNode runtimeType (selectionSet ! i)
           (advance st selectionSet i) = Inr (st2, False)"
        "selectionLoop ext ctx parentNode runtimeType selectionSet (Suc i) st2 = Returns (Inr st')"
    by (subst (asm) selectionLoop.simps)
       (auto simp: Let_def split: outcome.splits sum.splits if_splits prod.splits)
  then show ?case
  proof cases
    case skip
    from Suc.hyps(1) [OF n skip] show ?thesis by (simp add: advance_sel)
  next
    case stop
    from visitSelection_length [OF stop] show ?thesis by (simp add: advance_sel)
  next
    case visit
    from visitSelection_length [OF visit(1)] Suc.hyps(1) [OF n visit(2)]
    show ?thesis by (simp add: advance_sel)
  qed
qed

lemma collectLoop_length:
  "collectLoop fuel ext ctx parentNode runtimeType st = Some (Returns (Inr st')) \<Longrightarrow>
   length (cNodes st) \<le> length (cNodes st')"
proof (induction fuel arbitrary: st)
  case 0
  then show ?case by simp
next
  case (Suc fuel)
  show ?case
  proof (cases "length (cStack st) > 0")
    case False
    with Suc.prems show ?thesis by simp
  next
    case True
    obtain selectionSet i where top: "last (cStack st) = (selectionSet, i)"
      by (cases "last (cStack st)")
    from Suc.prems True top obtain st1 where
      "selectionLoop ext ctx parentNode runtimeType selectionSet i st = Returns (Inr st1)"
      "collectLoop fuel ext ctx parentNode runtimeType st1 = Some (Returns (Inr st'))"
      by (auto split: outcome.splits sum.splits)
    from selectionLoop_length [OF this(1)] Suc.IH [OF this(2)] show ?thesis by simp
  qed
qed

lemma build_length:
  "buildChildExecutionNodesForSelectionSet fuel ext ctx parentNode runtimeType heap
     = Some (Returns (r, heap')) \<Longrightarrow> length heap \<le> length heap'"
  by (auto simp: buildChildExecutionNodesForSelectionSet_def dest: collectLoop_length
           split: option.splits outcome.splits sum.splits)

lemma storeChildren_again:
  assumes "node < length heap"
    and "storeChildren node runtimeType childNodes heap = Returns heap'"
  shows "storeChildren node runtimeType childNodes heap' = Returns heap'
         \<and> (\<exists>children. Children (heap' ! node) = Some children
               \<and> map_of children runtimeType = Some childNodes)"
proof -
  from assms(2) obtain children where
    c: "Children (heap ! node) = Some children"
    and h: "heap' = heap[node := (heap ! node)
                     \<lparr>Children := Some (mapPut runtimeType childNodes children)\<rparr>]"
    by (auto simp: storeChildren_def split: option.splits)
  have m: "map_of (mapPut runtimeType childNodes children) runtimeType = Some childNodes"
    by (simp add: map_of_mapPut)
  from assms(1) have n: "heap' ! node = (heap ! node)
                     \<lparr>Children := Some (mapPut runtimeType childNodes children)\<rparr>"
    by (simp add: h)
  have "storeChildren node runtimeType childNodes heap' = Returns heap'"
    using assms(1) by (simp add: storeChildren_def n mapPut_same [OF m]) (simp add: h)
  with n m show ?thesis by simp
qed

lemma collectFields_hit:
  assumes "Children (heap ! node) = Some children"
    and "map_of children runtimeType = Some childNodes"
    and "storeChildren node runtimeType childNodes heap = Returns heap'"
  shows "collectFields fuel ext ctx node runtimeType heap = Some (Returns (Inr childNodes, heap'))"
  using assms by (simp add: collectFields_def)

text \<open>
  C5. After \<^verbatim>\<open>collectFields\<close> has returned the child nodes for a parent node and a
  runtime type, these are stored in the parent's \<^verbatim>\<open>Children\<close> under that type, and a
  second call for the same parent and runtime type returns the same list and
  leaves the heap of nodes as it is: nothing is built, whatever the fuel, the
  context and the external functions of the second call.
\<close>

theorem collectFields_memoized:
  assumes valid: "node < length heap"
    and first: "collectFields fuel ext ctx node runtimeType heap
                  = Some (Returns (Inr childNodes, heap'))"
  shows "collectFields fuel' ext' ctx' node runtimeType heap'
           = Some (Returns (Inr childNodes, heap'))
         \<and> (\<exists>children. Children (heap' ! node) = Some children
               \<and> map_of children runtimeType = Some childNodes)"
proof -
  have "\<exists>heap2. node < length heap2 \<and> storeChildren node runtimeType childNodes heap2 = Returns heap'"
  proof (cases "Children (heap ! node)")
    case None
    let ?heap1 = "heap[node := (heap ! node)\<lparr>Children := Some []\<rparr>]"
    from first None obtain heap2 where
      b: "buildChildExecutionNodesForSelectionSet fuel ext ctx node runtimeType ?heap1
            = Some (Returns (Inr childNodes, heap2))"
      and s: "storeChildren node runtimeType childNodes heap2 = Returns heap'"
      by (auto simp: collectFields_def split: option.splits outcome.splits sum.splits prod.splits)
    from build_length [OF b] valid have "node < length heap2" by simp
    with s show ?thesis by blast
  next
    case (Some children)
    show ?thesis
    proof (cases "map_of children runtimeType")
      case None
      from first Some None obtain heap2 where
        b: "buildChildExecutionNodesForSelectionSet fuel ext ctx node runtimeType heap
              = Some (Returns (Inr childNodes, heap2))"
        and s: "storeChildren node runtimeType childNodes heap2 = Returns heap'"
        by (auto simp: collectFields_def split: option.splits outcome.splits sum.splits prod.splits)
      from build_length [OF b] valid have "node < length heap2" by simp
      with s show ?thesis by blast
    next
      case found: (Some found)
      from first Some found have "storeChildren node runtimeType childNodes heap = Returns heap'"
        by (auto simp: collectFields_def split: option.splits outcome.splits sum.splits prod.splits)
      with valid show ?thesis by blast
    qed
  qed
  then obtain heap2 where "node < length heap2"
    "storeChildren node runtimeType childNodes heap2 = Returns heap'"
    by blast
  from storeChildren_again [OF this] obtain children where
    again: "storeChildren node runtimeType childNodes heap' = Returns heap'"
    and c: "Children (heap' ! node) = Some children"
    and m: "map_of children runtimeType = Some childNodes"
    by blast
  from collectFields_hit [OF c m again] c m show ?thesis by blast
qed

lemma mergeContext_sel:
  "OperationSelectionSet mergeContext = map FieldSelection mergeFields"
  "VariableValues mergeContext = []"
  "ObjectFields mergeContext = exampleFields"
  by (simp_all add: mergeContext_def exampleContext_sel)

lemma build_merge:
  "buildChildExecutionNodesForSelectionSet 2 exampleExternals mergeContext 0 ''Query''
     [freshRoot\<lparr>Children := Some []\<rparr>]
   = Some (Returns (Inr [1, 2], mergedHeap))"
  by (simp add: buildChildExecutionNodesForSelectionSet_def numeral_2_eq_2 initialStack_def IsRoot_def
        freshRoot_def mergeContext_sel mergeFields_def selectionLoop.simps
        shouldInclude_plain advance_def visitSelection_def Let_def
        collectField_def ResponseKey_def exampleField_sel findFieldDef_def exampleFields_def
        exampleExternals_sel mergedHeap_def)

lemma collect_merge:
  "collectFields 2 exampleExternals mergeContext 0 ''Query'' [freshRoot]
     = Some (Returns (Inr [1, 2],
         mergedHeap[0 := (mergedHeap ! 0)\<lparr>Children := Some [(''Query'', [1, 2])]\<rparr>]))"
  using build_merge
  by (simp add: collectFields_def freshRoot_def storeChildren_def mergedHeap_def)

theorem collectFields_memoized_witness:
  "collectFields 2 exampleExternals mergeContext 0 ''Query'' [freshRoot]
     = Some (Returns (Inr [1, 2],
         mergedHeap[0 := (mergedHeap ! 0)\<lparr>Children := Some [(''Query'', [1, 2])]\<rparr>]))
   \<and> collectFields 0 exampleExternals (exampleContext [] VNil) 0 ''Query''
       (mergedHeap[0 := (mergedHeap ! 0)\<lparr>Children := Some [(''Query'', [1, 2])]\<rparr>])
     = Some (Returns (Inr [1, 2],
         mergedHeap[0 := (mergedHeap ! 0)\<lparr>Children := Some [(''Query'', [1, 2])]\<rparr>]))"
  using collectFields_memoized [of 0 "[freshRoot]" 2 exampleExternals mergeContext "''Query''" "[1, 2]"
          "mergedHeap[0 := (mergedHeap ! 0)\<lparr>Children := Some [(''Query'', [1, 2])]\<rparr>]"
          0 exampleExternals "exampleContext [] VNil"]
        collect_merge
  by simp

section \<open>Value completion: wrapping an error\<close>

text \<open>
  In \<^verbatim>\<open>handleNodeError\<close> the type assertion on the result of \<^verbatim>\<open>NewError\<close> does not fail:
  \<^verbatim>\<open>NewError\<close> is given a list of locations and a path, both of recognized types.
\<close>

lemma handleNodeError_wraps:
  "\<exists>e. NewError m [ArgErrorLocations locations, ArgResponsePath path] = CoreError e"
  by (simp add: NewError_def)

section \<open>Value completion: abstract types\<close>

text \<open>
  C2. Completing a value that is neither nil nor an error against an abstract
  return type does not resolve a concrete object type and does not populate the
  result node: \<^verbatim>\<open>completeAbstractValue\<close> panics with \<^verbatim>\<open>unimplemented\<close>, and so do
  \<^verbatim>\<open>completeNonWrappingValue\<close> and \<^verbatim>\<open>completeValue\<close>.
\<close>

theorem completeAbstractValue_unimplemented:
  "val \<noteq> VNil \<and> (\<forall>e. val \<noteq> VError e) \<longrightarrow>
     completeNonWrappingValue fuel ext ctx task (Abstract name) result val s
       = Some (Panic ''unimplemented'')
     \<and> completeValue fuel ext ctx task (Abstract name) result val s
       = Some (Panic ''unimplemented'')"
  by (cases val)
     (simp_all add: completeNonWrappingValue_def completeValue_def completeAbstractValue_def
        IsNullish_def isWrappingType_def)

theorem completeAbstractValue_unimplemented_witness:
  "completeValue 0 exampleExternals nullElementContext listTask (Abstract ''Node'') 1
     (VMap [(''id'', VInt 1)]) dispatchedState
     = Some (Panic ''unimplemented'')"
  using completeAbstractValue_unimplemented
          [of "VMap [(''id'', VInt 1)]" 0 exampleExternals nullElementContext listTask "''Node''" 1
              dispatchedState]
  by simp

section \<open>Value completion: a null element of a non-null list\<close>

lemma build_list:
  "buildChildExecutionNodesForSelectionSet 2 exampleExternals nullElementContext 0 ''Query''
     [\<lparr> Parent = None, Definitions = [], NodeField = None, ArgumentValues = [], Children = Some [] \<rparr>]
   = Some (Returns (Inr [1],
       [\<lparr> Parent = None, Definitions = [], NodeField = None, ArgumentValues = [], Children = Some [] \<rparr>,
        listField]))"
  by (simp add: buildChildExecutionNodesForSelectionSet_def numeral_2_eq_2 initialStack_def IsRoot_def
        nullElementContext_sel selectionLoop.simps shouldInclude_plain advance_def visitSelection_def Let_def
        collectField_def ResponseKey_def exampleField_sel findFieldDef_def exampleFields_def
        exampleExternals_sel listField_def)

lemma root_dispatch:
  "collectAndDispatchRootTasks 2 exampleExternals nullElementContext emptyState
     = Some (Returns (Inr 0, dispatchedState))"
  by (simp add: collectAndDispatchRootTasks_def emptyState_def collectFields_def build_list
        storeChildren_def allocResults_def dispatchTasksForObject_def setResult_def setParent_def
        SetIsNonNull_def zeroResultNode_def listField_def IsNonNullType_def exampleExternals_sel
        serialDispatch_def dispatchedState_def rootNode_def listTask_def nullElementContext_sel Let_def)

lemma run_list:
  "Run 0 exampleExternals nullElementContext listTask dispatchedState
     = Some (Returns
         (dispatchedState\<lparr>xResults :=
            [\<lparr> rParent = None, rKind = ResultKindObject, rValue = ObjectValue [1] [1], rNonNull = False \<rparr>,
             \<lparr> rParent = Some 0, rKind = ResultKindList, rValue = ListValue [2, 3], rNonNull = True \<rparr>,
             \<lparr> rParent = Some 1, rKind = ResultKindLeaf, rValue = LeafValue (VInt 1), rNonNull = True \<rparr>,
             \<lparr> rParent = Some 1, rKind = ResultKindNil, rValue = NoValue, rNonNull = True \<rparr>]\<rparr>))"
  by (simp add: Run_def listTask_def dispatchedState_def listField_def exampleExternals_sel Get_def
        completeValue_def isWrappingType_def completeWrappingValue_def completeWrappingStep_def
        IsNil_def IsNonNullType_def InnerType_def IsNullish_def sliceOf_def completeListValue_def
        allocResults_def setResult_def setParent_def SetIsNonNull_def zeroResultNode_def
        completeNonWrappingValue_def completeLeafValue_def Let_def upt_rec)

text \<open>
  A round of the queue loop of \<^verbatim>\<open>completeWrappingValue\<close> for a value node whose parent
  result is already Nil does nothing: the state is unchanged and nothing is queued.
\<close>

lemma completeWrappingStep_parent_nil:
  "rParent (xResults s ! result) = Some parent \<Longrightarrow> IsNil (xResults s ! parent) \<Longrightarrow>
   completeWrappingStep fuel ext ctx task (returnType, result, val) s = Some (Returns ([], s))"
  by (simp add: completeWrappingStep_def)

text \<open>
  C1. The query \<^verbatim>\<open>{ list }\<close> with \<^verbatim>\<open>list: [Int]!\<close> on the root value \<^verbatim>\<open>{list: [1, null]}\<close>:
  \<^verbatim>\<open>collectAndDispatchRootTasks\<close> dispatches the one task of \<^verbatim>\<open>list\<close>, and running it
  records no error and leaves the result node of the second element flagged
  non-null with kind Nil, while its parent, the result node of the list, has kind
  List, and the root has kind Object. \<^verbatim>\<open>completeWrappingValue\<close> flags the elements
  of a list with the non-nullness of the list's own type, and the nil element is
  completed without an error, so nothing bubbles.
\<close>

theorem null_element_of_non_null_list_does_not_bubble:
  "collectAndDispatchRootTasks 2 exampleExternals nullElementContext emptyState
     = Some (Returns (Inr 0, dispatchedState))
   \<and> xTasks dispatchedState = [listTask]
   \<and> (\<exists>s. Run 0 exampleExternals nullElementContext listTask dispatchedState = Some (Returns s)
          \<and> xErrors s = []
          \<and> rNonNull (xResults s ! 3)
          \<and> rKind (xResults s ! 3) = ResultKindNil
          \<and> rParent (xResults s ! 3) = Some 1
          \<and> rKind (xResults s ! 1) = ResultKindList
          \<and> rKind (xResults s ! 0) = ResultKindObject)"
  by (simp add: root_dispatch run_list) (simp add: dispatchedState_def)

section \<open>Value completion: the elements of a list\<close>


















end
